theory Spec2Isabelle
  imports Main "HOL-Library.Sublist" "HOL-Library.AList"
begin

section \<open>Pivot tables of excelize: a shallow embedding of pivotTable.go\<close>

text \<open>
  The functions of \<^verbatim>\<open>pivotTable.go\<close> are translated one by one. A Go \<^verbatim>\<open>string\<close> is a
  byte sequence and \<^verbatim>\<open>len\<close> counts bytes, so strings are \<^typ>\<open>string\<close> and
  \<^const>\<open>length\<close> is \<^verbatim>\<open>len\<close>. A Go \<^verbatim>\<open>int\<close> is \<^typ>\<open>int\<close>: the code only counts
  parts and list positions with it. A pointer field that may be nil is an \<^typ>\<open>'a option\<close>.
  A function that mutates the file, or the options it was handed, returns the updated value.
\<close>

subsection \<open>Errors\<close>

text \<open>
  Go errors are values with a message. \<^verbatim>\<open>newPivotTableRangeError(err.Error())\<close> and
  \<^verbatim>\<open>newPivotTableDataRangeError(err.Error())\<close> build a message around the message of another
  error; the two constructors below carry that inner error and stand for the wrapped
  message. The source compares some errors by message (\<^verbatim>\<open>err.Error() != e.Error()\<close>);
  the model compares the values. \<open>ErrExternal\<close> is an error reported by a function outside
  \<^verbatim>\<open>pivotTable.go\<close>; \<open>Panic\<close> is a Go run-time panic (nil dereference, index or slice
  bound out of range).
\<close>

datatype error =
    ErrParameterRequired
  | ErrParameterInvalid
  | ErrNameLength
  | ErrSheetNotExist string
  | NotWorksheetError string
  | PivotTableRangeError error
  | PivotTableDataRangeError error
  | NoExistTableError string
  | ErrExternal string
  | Panic

subsection \<open>String functions of the Go library\<close>

text \<open>\<^verbatim>\<open>strings.Split(s, sep)\<close> for a separator of one byte: never returns the empty list.\<close>

fun Split :: "string \<Rightarrow> char \<Rightarrow> string list" where
  "Split [] sep = [[]]"
| "Split (c # cs) sep =
     (if c = sep then [] # Split cs sep
      else (case Split cs sep of [] \<Rightarrow> [[c]] | w # ws \<Rightarrow> (c # w) # ws))"

text \<open>\<^verbatim>\<open>strings.ReplaceAll(s, "$", "")\<close>.\<close>

definition trimDollar :: "string \<Rightarrow> string" where
  "trimDollar s = filter (\<lambda>c. c \<noteq> CHR ''$'') s"

text \<open>\<^verbatim>\<open>strings.ReplaceAll(s, "..", "xl")\<close>: non-overlapping occurrences, left to right.\<close>

fun dotsToXl :: "string \<Rightarrow> string" where
  "dotsToXl (a # b # cs) =
     (if a = CHR ''.'' \<and> b = CHR ''.'' then ''xl'' @ dotsToXl cs else a # dotsToXl (b # cs))"
| "dotsToXl cs = cs"

text \<open>\<^verbatim>\<open>strings.TrimPrefix\<close> and \<^verbatim>\<open>strings.Contains\<close>.\<close>

definition TrimPrefix :: "string \<Rightarrow> string \<Rightarrow> string" where
  "TrimPrefix s p = (if prefix p s then drop (length p) s else s)"

fun Contains :: "string \<Rightarrow> string \<Rightarrow> bool" where
  "Contains [] sub = (sub = [])"
| "Contains (c # cs) sub = (prefix sub (c # cs) \<or> Contains cs sub)"

text \<open>
  \<^verbatim>\<open>filepath.Base\<close>: the last element of a slash-separated path, trailing slashes
  removed; \<^verbatim>\<open>"."\<close> for the empty path and \<^verbatim>\<open>"/"\<close> for a path of slashes only.
\<close>

definition Base :: "string \<Rightarrow> string" where
  "Base p =
     (if p = [] then ''.''
      else (let q = rev (dropWhile (\<lambda>c. c = CHR ''/'') (rev p))
            in if q = [] then ''/''
               else rev (takeWhile (\<lambda>c. c \<noteq> CHR ''/'') (rev q))))"

text \<open>\<^verbatim>\<open>strconv.Itoa\<close>: the decimal digits of an integer, most significant first.\<close>

definition digitChar :: "nat \<Rightarrow> char" where
  "digitChar d = char_of (48 + d)"

function natDigits :: "nat \<Rightarrow> string" where
  "natDigits n = (if n < 10 then [digitChar n] else natDigits (n div 10) @ [digitChar (n mod 10)])"
  by pat_completeness auto
termination
  by (relation "measure id") auto

declare natDigits.simps [simp del]

definition Itoa :: "int \<Rightarrow> string" where
  "Itoa i = (if i < 0 then CHR ''-'' # natDigits (nat (- i)) else natDigits (nat i))"

text \<open>
  \<^verbatim>\<open>strconv.Atoi\<close> as \<^verbatim>\<open>addRels\<close> uses it (\<^verbatim>\<open>ID, _ := strconv.Atoi(...)\<close>): the
  value of a non-empty string of decimal digits, and 0 where Atoi reports an error. Signs are
  not modelled: relationship identifiers carry none.
\<close>

definition digitVal :: "char \<Rightarrow> nat" where
  "digitVal c = of_char c - 48"

definition isDigit :: "char \<Rightarrow> bool" where
  "isDigit c = (48 \<le> (of_char c :: nat) \<and> (of_char c :: nat) \<le> 57)"

definition Atoi :: "string \<Rightarrow> int" where
  "Atoi s = (if s \<noteq> [] \<and> list_all isDigit s
             then int (foldl (\<lambda>acc c. 10 * acc + digitVal c) 0 s) else 0)"

subsection \<open>The option model\<close>

text \<open>\<^verbatim>\<open>MaxFieldLength\<close> is declared outside the given sources; the specification gives 255.\<close>

definition MaxFieldLength :: nat where
  "MaxFieldLength = 255"

record PivotTableField =
  fldCompact :: bool
  fldData :: string
  fldName :: string
  fldOutline :: bool
  fldSubtotal :: string
  fldDefaultSubtotal :: bool

record PivotTableOptions =
  pivotTableXML :: string
  pivotCacheXML :: string
  pivotSheetName :: string
  pivotDataRange :: string
  namedDataRange :: bool
  DataRange :: string
  PivotTableRange :: string
  Name :: string
  Rows :: "PivotTableField list"
  Columns :: "PivotTableField list"
  Data :: "PivotTableField list"
  Filter :: "PivotTableField list"
  RowGrandTotals :: bool
  ColGrandTotals :: bool
  ShowDrill :: bool
  UseAutoFormatting :: bool
  PageOverThenDown :: bool
  MergeItem :: bool
  CompactData :: bool
  ShowError :: bool
  ShowRowHeaders :: bool
  ShowColHeaders :: bool
  ShowRowStripes :: bool
  ShowColStripes :: bool
  ShowLastColumn :: bool
  PivotTableStyleName :: string

subsection \<open>The document parts\<close>

text \<open>
  The XML structs (\<^verbatim>\<open>xlsxPivotTableDefinition\<close>, \<^verbatim>\<open>xlsxPivotCacheDefinition\<close> and their
  children) are declared outside the given sources; the records below have the fields
  that \<^verbatim>\<open>pivotTable.go\<close> reads or writes. The version attributes and the constant
  \<^verbatim>\<open>RowItems\<close> and \<^verbatim>\<open>ColItems\<close> of a table definition depend on no input and are left out.
  \<^verbatim>\<open>xlsxField\<close> holds one integer \<^verbatim>\<open>X\<close>, so a list of them is an \<^typ>\<open>int list\<close>.
\<close>

record xlsxItem =
  itemT :: string
  itemX :: "int option"

record xlsxItems =
  itemsCount :: int
  Item :: "xlsxItem list"

record xlsxPivotField =
  pfName :: string
  pfAxis :: string
  pfDataField :: bool
  pfCompact :: "bool option"
  pfOutline :: "bool option"
  pfDefaultSubtotal :: "bool option"
  pfItems :: "xlsxItems option"

record xlsxPivotFields =
  pivotFieldsCount :: int
  PivotField :: "xlsxPivotField list"

record xlsxRowFields =
  rowFieldsCount :: int
  rowField :: "int list"

record xlsxColFields =
  colFieldsCount :: int
  colField :: "int list"

record xlsxPageField =
  pgName :: string
  pgFld :: int

record xlsxPageFields =
  pageFieldsCount :: int
  PageField :: "xlsxPageField list"

record xlsxDataField =
  dfName :: string
  dfFld :: int
  dfSubtotal :: string

record xlsxDataFields =
  dataFieldsCount :: int
  DataField :: "xlsxDataField list"

record xlsxLocation =
  locRef :: string
  FirstDataCol :: int
  FirstDataRow :: int
  FirstHeaderRow :: int

record xlsxPivotTableStyleInfo =
  siName :: string
  siShowRowHeaders :: bool
  siShowColHeaders :: bool
  siShowRowStripes :: bool
  siShowColStripes :: bool
  siShowLastColumn :: bool

record xlsxPivotTableDefinition =
  ptName :: string
  ptCacheID :: int
  ptRowGrandTotals :: "bool option"
  ptColGrandTotals :: "bool option"
  ptShowDrill :: "bool option"
  ptUseAutoFormatting :: "bool option"
  ptPageOverThenDown :: "bool option"
  ptMergeItem :: "bool option"
  ptCompactData :: "bool option"
  ptShowError :: "bool option"
  ptDataCaption :: string
  ptLocation :: "xlsxLocation option"
  ptPivotFields :: "xlsxPivotFields option"
  ptRowFields :: "xlsxRowFields option"
  ptColFields :: "xlsxColFields option"
  ptPageFields :: "xlsxPageFields option"
  ptDataFields :: "xlsxDataFields option"
  ptPivotTableStyleInfo :: "xlsxPivotTableStyleInfo option"

record xlsxWorksheetSource =
  wsRef :: string
  wsSheet :: string
  wsName :: string

record xlsxCacheSource =
  csType :: string
  WorksheetSource :: "xlsxWorksheetSource option"

text \<open>
  \<^verbatim>\<open>xlsxSharedItems{ContainsBlank: true, M: []xlsxMissing{{}}}\<close>: \<^verbatim>\<open>xlsxMissing\<close> has no
  content that the code sets, so \<open>M\<close> is the number of entries.
\<close>

record xlsxSharedItems =
  ContainsBlank :: bool
  M :: nat

record xlsxCacheField =
  cfName :: string
  SharedItems :: "xlsxSharedItems option"

record xlsxCacheFields =
  cacheFieldsCount :: int
  CacheField :: "xlsxCacheField list"

record xlsxPivotCacheDefinition =
  SaveData :: bool
  RefreshOnLoad :: bool
  CacheSource :: "xlsxCacheSource option"
  CacheFields :: "xlsxCacheFields option"

record xlsxRelationship =
  relID :: string
  relType :: string
  relTarget :: string

record xlsxPivotCache =
  CacheID :: int
  RID :: string

record Table =
  tblName :: string
  tblRange :: string

text \<open>
  A part of the package. \<^verbatim>\<open>xml.Marshal\<close> and the XML decoder are outside the given
  sources: a pivot part is held as the struct that was marshalled, and decoding gives that
  struct back. \<open>RawPart\<close> is any other content.
\<close>

datatype part =
    PivotTablePart xlsxPivotTableDefinition
  | PivotCachePart xlsxPivotCacheDefinition
  | RawPart string

subsection \<open>The file\<close>

text \<open>
  The state of a \<^verbatim>\<open>File\<close> as the pivot-table code sees it. The first fields are what
  the functions outside \<^verbatim>\<open>pivotTable.go\<close> answer on this file; they are parameters of the
  model, and the theorems hold for every choice of them:
  \<^item> \<open>rangeRefToCoordinates\<close>: the four coordinates \<open>(x1, y1, x2, y2)\<close> of a two-corner
    reference, or an error;
  \<^item> \<open>CoordinatesToCellName\<close>: the cell name of a column and a row (the error it also
    returns is discarded at every call in \<^verbatim>\<open>pivotTable.go\<close>);
  \<^item> \<open>GetCellValue\<close>, \<open>GetSheetList\<close>, \<open>getSheetXMLPath\<close>, \<open>workSheetReader\<close> (the error
    only: the worksheet it returns is not used), \<open>GetTables\<close> (which returns tables and an
    error together), \<open>getDefinedNameRefTo\<close>, \<open>getWorkbookRelsPath\<close>, and \<open>Title\<close> for
    \<^verbatim>\<open>cases.Title(language.English).String\<close>.
  The remaining fields are the state that the pivot-table code changes: the package
  \<open>Pkg\<close> (part path to content, at most one entry for a path), the relationship parts as
  \<^verbatim>\<open>relsReader\<close> returns them (an error, nil, or the relationships), the workbook's
  \<^verbatim>\<open>PivotCaches\<close> (nil or a list) and the content-type overrides. The workbook is held
  decoded, so \<^verbatim>\<open>workbookReader\<close> returns it without an error.
\<close>

record File =
  rangeRefToCoordinates :: "string \<Rightarrow> error + int \<times> int \<times> int \<times> int"
  CoordinatesToCellName :: "int \<Rightarrow> int \<Rightarrow> string"
  GetCellValue :: "string \<Rightarrow> string \<Rightarrow> error + string"
  GetSheetList :: "string list"
  getSheetXMLPath :: "string \<Rightarrow> string option"
  workSheetReader :: "string \<Rightarrow> error option"
  GetTables :: "string \<Rightarrow> Table list \<times> error option"
  getDefinedNameRefTo :: "string \<Rightarrow> string \<Rightarrow> string"
  Title :: "string \<Rightarrow> string"
  getWorkbookRelsPath :: string
  Pkg :: "(string \<times> part) list"
  relsReader :: "string \<Rightarrow> error + xlsxRelationship list option"
  PivotCaches :: "xlsxPivotCache list option"
  ContentTypes :: "(string \<times> string) list"

subsection \<open>Range geometry\<close>

text \<open>
  \<^verbatim>\<open>adjustRange\<close> returns \<^verbatim>\<open>(sheet, []int{}, err)\<close> or \<^verbatim>\<open>(sheet, []int{x1, y1, x2, y2}, nil)\<close>:
  \<open>Inl (sheet, err)\<close> is the first and \<open>Inr (sheet, x1, y1, x2, y2)\<close> the second.
\<close>

definition adjustRange ::
  "File \<Rightarrow> string \<Rightarrow> string \<times> error + string \<times> int \<times> int \<times> int \<times> int" where
  "adjustRange f rangeStr =
     (if length rangeStr < 1 then Inl ([], ErrParameterRequired)
      else (case Split rangeStr (CHR ''!'') of
              [rng0, rng1] \<Rightarrow>
                (case rangeRefToCoordinates f (trimDollar rng1) of
                   Inl err \<Rightarrow> Inl (rng0, err)
                 | Inr (x1, y1, x2, y2) \<Rightarrow>
                     if x1 = x2 \<and> y1 = y2 then Inl (rng0, ErrParameterInvalid)
                     else (let (x1', x2') = (if x2 < x1 then (x2, x1) else (x1, x2));
                               (y1', y2') = (if y2 < y1 then (y2, y1) else (y1, y2))
                           in Inr (rng0, x1', y1', x2', y2')))
            | _ \<Rightarrow> Inl ([], ErrParameterInvalid)))"

subsection \<open>Resolving the data source and the column order\<close>

fun scanTables ::
  "File \<Rightarrow> PivotTableOptions \<Rightarrow> string list \<Rightarrow> (error option \<times> PivotTableOptions) option" where
  "scanTables f opts [] = None"
| "scanTables f opts (sheetName # rest) =
     (case GetTables f sheetName of
        (tables, err) \<Rightarrow>
          if err \<noteq> None \<and> err \<noteq> Some (NotWorksheetError sheetName)
               \<and> err \<noteq> Some (ErrSheetNotExist sheetName)
          then Some (err, opts)
          else (case find (\<lambda>table. tblName table = DataRange opts) tables of
                  Some table \<Rightarrow>
                    Some (err, opts\<lparr>pivotDataRange := sheetName @ ''!'' @ tblRange table,
                                    namedDataRange := True\<rparr>)
                | None \<Rightarrow> scanTables f opts rest))"

text \<open>
  \<open>scanTables\<close> is the loop over the sheets: \<open>Some\<close> is a return from inside the loop,
  \<open>None\<close> is the loop running to its end.
\<close>

definition getPivotTableDataRange ::
  "File \<Rightarrow> PivotTableOptions \<Rightarrow> error option \<times> PivotTableOptions" where
  "getPivotTableDataRange f opts =
     (if DataRange opts = [] then (Some (PivotTableDataRangeError ErrParameterRequired), opts)
      else if pivotDataRange opts \<noteq> [] then (None, opts)
      else if Contains (DataRange opts) ''!''
      then (None, opts\<lparr>pivotDataRange := DataRange opts\<rparr>)
      else (case scanTables f opts (GetSheetList f) of
              Some r \<Rightarrow> r
            | None \<Rightarrow>
                if \<not> namedDataRange opts
                then (let opts' = opts\<lparr>pivotDataRange :=
                                     getDefinedNameRefTo f (DataRange opts) (pivotSheetName opts)\<rparr>
                      in if pivotDataRange opts' \<noteq> []
                         then (None, opts'\<lparr>namedDataRange := True\<rparr>)
                         else (Some (PivotTableDataRangeError ErrParameterInvalid), opts'))
                else (Some (PivotTableDataRangeError ErrParameterInvalid), opts)))"

text \<open>
  The loop of \<^verbatim>\<open>getTableFieldsOrder\<close> over the columns \<open>x1..x2\<close> of the header row: the
  names read so far and the error that stopped the loop, if any.
\<close>

fun readHeader :: "File \<Rightarrow> string \<Rightarrow> int \<Rightarrow> int list \<Rightarrow> string list \<times> error option" where
  "readHeader f dataSheet row [] = ([], None)"
| "readHeader f dataSheet row (col # cols) =
     (case GetCellValue f dataSheet (CoordinatesToCellName f col row) of
        Inl err \<Rightarrow> ([], Some err)
      | Inr name \<Rightarrow>
          if name = [] then ([], Some ErrParameterInvalid)
          else (case readHeader f dataSheet row cols of
                  (order, err) \<Rightarrow> (name # order, err)))"

definition getTableFieldsOrder ::
  "File \<Rightarrow> PivotTableOptions \<Rightarrow> (string list \<times> error option) \<times> PivotTableOptions" where
  "getTableFieldsOrder f opts =
     (case getPivotTableDataRange f opts of
        (Some err, opts') \<Rightarrow> (([], Some err), opts')
      | (None, opts') \<Rightarrow>
          (case adjustRange f (pivotDataRange opts') of
             Inl (_, err) \<Rightarrow> (([], Some (PivotTableDataRangeError err)), opts')
           | Inr (dataSheet, x1, y1, x2, y2) \<Rightarrow> (readHeader f dataSheet y1 [x1..x2], opts')))"

subsection \<open>Looking fields up\<close>

text \<open>The loop of \<^verbatim>\<open>inPivotTableField\<close>, with the running index \<open>idx\<close>.\<close>

fun inPivotTableFieldFrom :: "int \<Rightarrow> PivotTableField list \<Rightarrow> string \<Rightarrow> int" where
  "inPivotTableFieldFrom idx [] x = - 1"
| "inPivotTableFieldFrom idx (n # a) x =
     (if x = fldData n then idx else inPivotTableFieldFrom (idx + 1) a x)"

definition inPivotTableField :: "PivotTableField list \<Rightarrow> string \<Rightarrow> int" where
  "inPivotTableField a x = inPivotTableFieldFrom 0 a x"

text \<open>
  Modelled from the spec: \<^verbatim>\<open>inStrSlice\<close> is not in the given sources. The specification
  says of the lookup of a name in the field order that the position of the first match
  wins; \<^verbatim>\<open>getPivotFieldsIndex\<close> tests its result against \<open>-1\<close>, the answer for a name
  that is absent. The call passes \<^verbatim>\<open>true\<close> for a case-sensitive comparison.
\<close>

fun inStrSliceFrom :: "int \<Rightarrow> string list \<Rightarrow> string \<Rightarrow> int" where
  "inStrSliceFrom idx [] x = - 1"
| "inStrSliceFrom idx (s # a) x = (if x = s then idx else inStrSliceFrom (idx + 1) a x)"

definition inStrSlice :: "string list \<Rightarrow> string \<Rightarrow> int" where
  "inStrSlice a x = inStrSliceFrom 0 a x"

text \<open>The loop of \<^verbatim>\<open>getPivotFieldsIndex\<close>: a field whose name is not found adds nothing.\<close>

fun fieldsIndex :: "string list \<Rightarrow> PivotTableField list \<Rightarrow> int list" where
  "fieldsIndex orders [] = []"
| "fieldsIndex orders (field # flds) =
     (let pos = inStrSlice orders (fldData field)
      in if pos \<noteq> - 1 then pos # fieldsIndex orders flds else fieldsIndex orders flds)"

definition getPivotFieldsIndex ::
  "File \<Rightarrow> PivotTableField list \<Rightarrow> PivotTableOptions
     \<Rightarrow> (int list \<times> error option) \<times> PivotTableOptions" where
  "getPivotFieldsIndex f flds opts =
     (case getTableFieldsOrder f opts of
        ((orders, Some err), opts') \<Rightarrow> (([], Some err), opts')
      | ((orders, None), opts') \<Rightarrow> ((fieldsIndex orders flds, None), opts'))"

text \<open>
  \<^verbatim>\<open>strings.EqualFold\<close> on the eleven names of the enumeration: ASCII letters are compared
  without case. (Unicode folds two code points outside ASCII onto \<open>k\<close> and \<open>s\<close>; they are
  compared as bytes here.)
\<close>

definition toLowerASCII :: "char \<Rightarrow> char" where
  "toLowerASCII c =
     (if 65 \<le> (of_char c :: nat) \<and> (of_char c :: nat) \<le> 90 then char_of (of_char c + 32 :: nat) else c)"

definition EqualFold :: "string \<Rightarrow> string \<Rightarrow> bool" where
  "EqualFold s t = (map toLowerASCII s = map toLowerASCII t)"

definition subtotalEnums :: "string list" where
  "subtotalEnums = [''average'', ''count'', ''countNums'', ''max'', ''min'', ''product'',
     ''stdDev'', ''stdDevp'', ''sum'', ''var'', ''varp'']"

definition inEnums :: "string list \<Rightarrow> string \<Rightarrow> string" where
  "inEnums enums val = (case find (\<lambda>enum. EqualFold enum val) enums of Some enum \<Rightarrow> enum | None \<Rightarrow> ''sum'')"

definition getPivotTableFieldsSubtotal :: "PivotTableField list \<Rightarrow> string list" where
  "getPivotTableFieldsSubtotal flds = map (\<lambda>fld. inEnums subtotalEnums (fldSubtotal fld)) flds"

definition getPivotTableFieldsName :: "PivotTableField list \<Rightarrow> string list" where
  "getPivotTableFieldsName flds =
     map (\<lambda>fld. if length (fldName fld) > MaxFieldLength then take MaxFieldLength (fldName fld)
                else fldName fld) flds"

text \<open>
  The loop of \<^verbatim>\<open>getPivotTableFieldName\<close> runs over \<open>fields\<close> and reads \<open>fieldsName[idx]\<close>,
  a list of the same length: it runs over the pairs.
\<close>

fun fieldNameLoop :: "string \<Rightarrow> (PivotTableField \<times> string) list \<Rightarrow> string" where
  "fieldNameLoop name [] = []"
| "fieldNameLoop name ((field, fieldName) # rest) =
     (if fldData field = name then fieldName else fieldNameLoop name rest)"

definition getPivotTableFieldName :: "string \<Rightarrow> PivotTableField list \<Rightarrow> string" where
  "getPivotTableFieldName name flds =
     fieldNameLoop name (zip flds (getPivotTableFieldsName flds))"

definition zeroPivotTableField :: PivotTableField where
  "zeroPivotTableField =
     \<lparr>fldCompact = False, fldData = [], fldName = [], fldOutline = False, fldSubtotal = [],
      fldDefaultSubtotal = False\<rparr>"

definition getPivotTableFieldOptions :: "string \<Rightarrow> PivotTableField list \<Rightarrow> PivotTableField \<times> bool" where
  "getPivotTableFieldOptions name flds =
     (case find (\<lambda>field. fldData field = name) flds of
        Some field \<Rightarrow> (field, True)
      | None \<Rightarrow> (zeroPivotTableField, False))"

subsection \<open>Building the table definition\<close>

text \<open>
  The body of the loop of \<^verbatim>\<open>addPivotFields\<close>: the descriptor appended for one name of
  the field order. The local \<open>x\<close> is 0 throughout, so \<^verbatim>\<open>&x\<close> is \<open>Some 0\<close>.
\<close>

definition pivotFieldFor :: "PivotTableOptions \<Rightarrow> string \<Rightarrow> xlsxPivotField" where
  "pivotFieldFor opts name =
     (if inPivotTableField (Rows opts) name \<noteq> - 1 then
        (case getPivotTableFieldOptions name (Rows opts) of
           (rowOptions, ok) \<Rightarrow>
             (let items = (if \<not> ok \<or> \<not> fldDefaultSubtotal rowOptions
                           then [\<lparr>itemT = [], itemX = Some 0\<rparr>]
                           else [\<lparr>itemT = ''default'', itemX = None\<rparr>])
              in \<lparr>pfName = getPivotTableFieldName name (Rows opts),
                  pfAxis = ''axisRow'',
                  pfDataField = (inPivotTableField (Data opts) name \<noteq> - 1),
                  pfCompact = Some (fldCompact rowOptions),
                  pfOutline = Some (fldOutline rowOptions),
                  pfDefaultSubtotal = Some (fldDefaultSubtotal rowOptions),
                  pfItems = Some \<lparr>itemsCount = int (length items), Item = items\<rparr>\<rparr>))
      else if inPivotTableField (Filter opts) name \<noteq> - 1 then
        \<lparr>pfName = getPivotTableFieldName name (Columns opts),
         pfAxis = ''axisPage'',
         pfDataField = (inPivotTableField (Data opts) name \<noteq> - 1),
         pfCompact = None, pfOutline = None, pfDefaultSubtotal = None,
         pfItems = Some \<lparr>itemsCount = 1, Item = [\<lparr>itemT = ''default'', itemX = None\<rparr>]\<rparr>\<rparr>
      else if inPivotTableField (Columns opts) name \<noteq> - 1 then
        (case getPivotTableFieldOptions name (Columns opts) of
           (columnOptions, ok) \<Rightarrow>
             (let items = (if \<not> ok \<or> \<not> fldDefaultSubtotal columnOptions
                           then [\<lparr>itemT = [], itemX = Some 0\<rparr>]
                           else [\<lparr>itemT = ''default'', itemX = None\<rparr>])
              in \<lparr>pfName = getPivotTableFieldName name (Columns opts),
                  pfAxis = ''axisCol'',
                  pfDataField = (inPivotTableField (Data opts) name \<noteq> - 1),
                  pfCompact = Some (fldCompact columnOptions),
                  pfOutline = Some (fldOutline columnOptions),
                  pfDefaultSubtotal = Some (fldDefaultSubtotal columnOptions),
                  pfItems = Some \<lparr>itemsCount = int (length items), Item = items\<rparr>\<rparr>))
      else if inPivotTableField (Data opts) name \<noteq> - 1 then
        \<lparr>pfName = [], pfAxis = [], pfDataField = True, pfCompact = None, pfOutline = None,
         pfDefaultSubtotal = None, pfItems = None\<rparr>
      else
        \<lparr>pfName = [], pfAxis = [], pfDataField = False, pfCompact = None, pfOutline = None,
         pfDefaultSubtotal = None, pfItems = None\<rparr>)"

text \<open>
  The functions \<^verbatim>\<open>addPivot...Fields\<close> change the definition \<open>pt\<close> and, through
  \<^verbatim>\<open>getTableFieldsOrder\<close>, the options: they return the error, the definition and the
  options. \<^verbatim>\<open>pt.PivotFields\<close> is dereferenced at the first append, a panic when it is nil.
\<close>

definition addPivotFields ::
  "File \<Rightarrow> xlsxPivotTableDefinition \<Rightarrow> PivotTableOptions
     \<Rightarrow> error option \<times> xlsxPivotTableDefinition \<times> PivotTableOptions" where
  "addPivotFields f pt opts =
     (case getTableFieldsOrder f opts of
        ((order, Some err), opts') \<Rightarrow> (Some err, pt, opts')
      | ((order, None), opts') \<Rightarrow>
          if order = [] then (None, pt, opts')
          else (case ptPivotFields pt of
                  None \<Rightarrow> (Some Panic, pt, opts')
                | Some pfs \<Rightarrow>
                    (None,
                     pt\<lparr>ptPivotFields :=
                          Some (pfs\<lparr>PivotField := PivotField pfs @ map (pivotFieldFor opts') order\<rparr>)\<rparr>,
                     opts')))"

definition addPivotRowFields ::
  "File \<Rightarrow> xlsxPivotTableDefinition \<Rightarrow> PivotTableOptions
     \<Rightarrow> error option \<times> xlsxPivotTableDefinition \<times> PivotTableOptions" where
  "addPivotRowFields f pt opts =
     (case getPivotFieldsIndex f (Rows opts) opts of
        ((rowFieldsIndex, Some err), opts') \<Rightarrow> (Some err, pt, opts')
      | ((rowFieldsIndex, None), opts') \<Rightarrow>
          (let rf = (if rowFieldsIndex = [] then ptRowFields pt
                     else (case ptRowFields pt of
                             None \<Rightarrow> Some \<lparr>rowFieldsCount = 0, rowField = rowFieldsIndex\<rparr>
                           | Some r \<Rightarrow> Some (r\<lparr>rowField := rowField r @ rowFieldsIndex\<rparr>)));
               rf' = map_option (\<lambda>r. r\<lparr>rowFieldsCount := int (length (rowField r))\<rparr>) rf
           in (None, pt\<lparr>ptRowFields := rf'\<rparr>, opts')))"

definition addPivotPageFields ::
  "File \<Rightarrow> xlsxPivotTableDefinition \<Rightarrow> PivotTableOptions
     \<Rightarrow> error option \<times> xlsxPivotTableDefinition \<times> PivotTableOptions" where
  "addPivotPageFields f pt opts =
     (case getPivotFieldsIndex f (Filter opts) opts of
        ((pageFieldsIndex, Some err), opts') \<Rightarrow> (Some err, pt, opts')
      | ((pageFieldsIndex, None), opts') \<Rightarrow>
          (let pageFieldsName = getPivotTableFieldsName (Filter opts');
               new = map (\<lambda>(pageField, name). \<lparr>pgName = name, pgFld = pageField\<rparr>)
                       (zip pageFieldsIndex pageFieldsName);
               pf = (if pageFieldsIndex = [] then ptPageFields pt
                     else (case ptPageFields pt of
                             None \<Rightarrow> Some \<lparr>pageFieldsCount = 0, PageField = new\<rparr>
                           | Some r \<Rightarrow> Some (r\<lparr>PageField := PageField r @ new\<rparr>)));
               pf' = map_option (\<lambda>r. r\<lparr>pageFieldsCount := int (length (PageField r))\<rparr>) pf
           in (None, pt\<lparr>ptPageFields := pf'\<rparr>, opts')))"

definition addPivotDataFields ::
  "File \<Rightarrow> xlsxPivotTableDefinition \<Rightarrow> PivotTableOptions
     \<Rightarrow> error option \<times> xlsxPivotTableDefinition \<times> PivotTableOptions" where
  "addPivotDataFields f pt opts =
     (case getPivotFieldsIndex f (Data opts) opts of
        ((dataFieldsIndex, Some err), opts') \<Rightarrow> (Some err, pt, opts')
      | ((dataFieldsIndex, None), opts') \<Rightarrow>
          (let dataFieldsSubtotals = getPivotTableFieldsSubtotal (Data opts');
               dataFieldsName = getPivotTableFieldsName (Data opts');
               new = map (\<lambda>(dataField, name, subtotal).
                            \<lparr>dfName = name, dfFld = dataField, dfSubtotal = subtotal\<rparr>)
                       (zip dataFieldsIndex (zip dataFieldsName dataFieldsSubtotals));
               df = (if dataFieldsIndex = [] then ptDataFields pt
                     else (case ptDataFields pt of
                             None \<Rightarrow> Some \<lparr>dataFieldsCount = 0, DataField = new\<rparr>
                           | Some r \<Rightarrow> Some (r\<lparr>DataField := DataField r @ new\<rparr>)));
               df' = map_option (\<lambda>r. r\<lparr>dataFieldsCount := int (length (DataField r))\<rparr>) df
           in (None, pt\<lparr>ptDataFields := df'\<rparr>, opts')))"

definition addPivotColFields ::
  "File \<Rightarrow> xlsxPivotTableDefinition \<Rightarrow> PivotTableOptions
     \<Rightarrow> error option \<times> xlsxPivotTableDefinition \<times> PivotTableOptions" where
  "addPivotColFields f pt opts =
     (if length (Columns opts) = 0 then
        (if length (Data opts) \<le> 1 then (None, pt, opts)
         else (None, pt\<lparr>ptColFields := Some \<lparr>colFieldsCount = 1, colField = [- 2]\<rparr>\<rparr>, opts))
      else
        (case getPivotFieldsIndex f (Columns opts) opts of
           ((colFieldsIndex, Some err), opts') \<Rightarrow>
             (Some err, pt\<lparr>ptColFields := Some \<lparr>colFieldsCount = 0, colField = []\<rparr>\<rparr>, opts')
         | ((colFieldsIndex, None), opts') \<Rightarrow>
             (let fld = colFieldsIndex @ (if length (Data opts') > 1 then [- 2] else [])
              in (None,
                  pt\<lparr>ptColFields := Some \<lparr>colFieldsCount = int (length fld), colField = fld\<rparr>\<rparr>,
                  opts'))))"

subsection \<open>Parts, relationships and identifiers\<close>

text \<open>\<^verbatim>\<open>f.saveFileList(path, content)\<close> stores the content under the path.\<close>

definition saveFileList :: "File \<Rightarrow> string \<Rightarrow> part \<Rightarrow> File" where
  "saveFileList f path content = f\<lparr>Pkg := AList.update path content (Pkg f)\<rparr>"

text \<open>\<^verbatim>\<open>f.Pkg.Range\<close> visits every key of the package once.\<close>

definition countPivotTables :: "File \<Rightarrow> int" where
  "countPivotTables f =
     int (length (filter (\<lambda>k. Contains k ''xl/pivotTables/pivotTable'') (remdups (map fst (Pkg f)))))"

definition countPivotCache :: "File \<Rightarrow> int" where
  "countPivotCache f =
     int (length (filter (\<lambda>k. Contains k ''xl/pivotCache/pivotCacheDefinition'')
                    (remdups (map fst (Pkg f)))))"

text \<open>
  The relationship types are constants declared outside the given sources; these are the
  identifiers of the file format.
\<close>

definition SourceRelationshipPivotTable :: string where
  "SourceRelationshipPivotTable =
     ''http://schemas.openxmlformats.org/officeDocument/2006/relationships/pivotTable''"

definition SourceRelationshipPivotCache :: string where
  "SourceRelationshipPivotCache =
     ''http://schemas.openxmlformats.org/officeDocument/2006/relationships/pivotCacheDefinition''"

text \<open>
  Modelled from the spec: \<^verbatim>\<open>addRels\<close> is not in the given sources. The registry
  ``allocates IDs'' and ``wires relationships'', and the relationship ID it returns is
  written by \<^verbatim>\<open>addWorkbookPivotCache\<close> as \<^verbatim>\<open>rId%d\<close>: the new relationship gets the
  number after the greatest number in use in that relationship part and is appended.
\<close>

definition relsOf :: "File \<Rightarrow> string \<Rightarrow> xlsxRelationship list" where
  "relsOf f path = (case relsReader f path of Inr (Some rels) \<Rightarrow> rels | _ \<Rightarrow> [])"

definition addRels :: "File \<Rightarrow> string \<Rightarrow> string \<Rightarrow> string \<Rightarrow> int \<times> File" where
  "addRels f relPath rType target =
     (let rels = relsOf f relPath;
          rID = foldl max 0 (map (\<lambda>rel. Atoi (TrimPrefix (relID rel) ''rId'')) rels) + 1;
          rel = \<lparr>relID = ''rId'' @ Itoa rID, relType = rType, relTarget = target\<rparr>
      in (rID, f\<lparr>relsReader := (relsReader f)(relPath := Inr (Some (rels @ [rel])))\<rparr>))"

text \<open>
  Modelled from the spec: \<^verbatim>\<open>addContentTypePart\<close> is not in the given sources. It
  registers the content-type override of a new part, here as the pair of the kind of the
  part and its number.
\<close>

definition addContentTypePart :: "File \<Rightarrow> int \<Rightarrow> string \<Rightarrow> error option \<times> File" where
  "addContentTypePart f index contentType =
     (None, f\<lparr>ContentTypes := ContentTypes f @ [(contentType, Itoa index)]\<rparr>)"

definition addWorkbookPivotCache :: "File \<Rightarrow> int \<Rightarrow> int \<times> File" where
  "addWorkbookPivotCache f rID =
     (let caches = (case PivotCaches f of None \<Rightarrow> [] | Some cs \<Rightarrow> cs);
          cacheID = foldl (\<lambda>cacheID pivotCache.
                             if CacheID pivotCache > cacheID then CacheID pivotCache else cacheID)
                      1 caches + 1
      in (cacheID,
          f\<lparr>PivotCaches := Some (caches @ [\<lparr>CacheID = cacheID, RID = ''rId'' @ Itoa rID\<rparr>])\<rparr>))"

subsection \<open>Validation, the cache and the table\<close>

text \<open>
  \<^verbatim>\<open>parseFormatPivotTableSet\<close> returns the path of the sheet of the pivot table and
  changes the options; a nil \<open>opts\<close> is \<open>None\<close>. The worksheet it also returns is not
  used by its caller.
\<close>

definition parseFormatPivotTableSet ::
  "File \<Rightarrow> PivotTableOptions option \<Rightarrow> error + string \<times> PivotTableOptions" where
  "parseFormatPivotTableSet f optsp =
     (case optsp of
        None \<Rightarrow> Inl ErrParameterRequired
      | Some opts \<Rightarrow>
          (case adjustRange f (PivotTableRange opts) of
             Inl (_, err) \<Rightarrow> Inl (PivotTableRangeError err)
           | Inr (pivotTableSheetName, _) \<Rightarrow>
               if length (Name opts) > MaxFieldLength then Inl ErrNameLength
               else (case getPivotTableDataRange f (opts\<lparr>pivotSheetName := pivotTableSheetName\<rparr>) of
                       (Some err, _) \<Rightarrow> Inl err
                     | (None, opts') \<Rightarrow>
                         (case adjustRange f (pivotDataRange opts') of
                            Inl (_, err) \<Rightarrow> Inl (PivotTableDataRangeError err)
                          | Inr (dataSheetName, _) \<Rightarrow>
                              (case workSheetReader f dataSheetName of
                                 Some err \<Rightarrow> Inl err
                               | None \<Rightarrow>
                                   (case getSheetXMLPath f pivotTableSheetName of
                                      None \<Rightarrow> Inl (ErrSheetNotExist pivotTableSheetName)
                                    | Some pivotTableSheetPath \<Rightarrow>
                                        Inr (pivotTableSheetPath, opts')))))))"

text \<open>\<^verbatim>\<open>xml.Marshal\<close> of these structs reports no error: the part is the struct.\<close>

definition addPivotCache :: "File \<Rightarrow> PivotTableOptions \<Rightarrow> error option \<times> File \<times> PivotTableOptions" where
  "addPivotCache f opts =
     (case adjustRange f (pivotDataRange opts) of
        Inl (_, err) \<Rightarrow> (Some (PivotTableDataRangeError err), f, opts)
      | Inr (dataSheet, x1, y1, x2, y2) \<Rightarrow>
          (case getTableFieldsOrder f opts of
             ((order, Some err), opts') \<Rightarrow> (Some (PivotTableDataRangeError err), f, opts')
           | ((order, None), opts') \<Rightarrow>
               (let topLeftCell = CoordinatesToCellName f x1 y1;
                    bottomRightCell = CoordinatesToCellName f x2 y2;
                    source = (if namedDataRange opts'
                              then \<lparr>wsRef = [], wsSheet = [], wsName = DataRange opts'\<rparr>
                              else \<lparr>wsRef = topLeftCell @ '':'' @ bottomRightCell,
                                    wsSheet = dataSheet, wsName = []\<rparr>);
                    cacheField = map (\<lambda>name. \<lparr>cfName = name,
                                   SharedItems = Some \<lparr>ContainsBlank = True, M = 1\<rparr>\<rparr>) order;
                    pc = \<lparr>SaveData = False, RefreshOnLoad = True,
                          CacheSource = Some \<lparr>csType = ''worksheet'', WorksheetSource = Some source\<rparr>,
                          CacheFields = Some \<lparr>cacheFieldsCount = int (length cacheField),
                                               CacheField = cacheField\<rparr>\<rparr>
                in (None, saveFileList f (pivotCacheXML opts') (PivotCachePart pc), opts'))))"

text \<open>
  \<^verbatim>\<open>addPivotTable\<close> discards the errors of the five \<^verbatim>\<open>addPivot...Fields\<close> calls
  (\<^verbatim>\<open>_ = f.addPivotFields(&pt, opts)\<close>) and keeps what they did to \<open>pt\<close> and \<open>opts\<close>.
\<close>

definition addPivotTable ::
  "File \<Rightarrow> int \<Rightarrow> int \<Rightarrow> PivotTableOptions \<Rightarrow> error option \<times> File \<times> PivotTableOptions" where
  "addPivotTable f cacheID pivotTableID opts =
     (case adjustRange f (PivotTableRange opts) of
        Inl (_, err) \<Rightarrow> (Some (PivotTableRangeError err), f, opts)
      | Inr (_, x1, y1, x2, y2) \<Rightarrow>
          (let topLeftCell = CoordinatesToCellName f x1 y1;
               bottomRightCell = CoordinatesToCellName f x2 y2;
               pivotTableStyle = (if PivotTableStyleName opts = [] then ''PivotStyleLight16''
                                  else PivotTableStyleName opts);
               pt0 = \<lparr>ptName = Name opts,
                      ptCacheID = cacheID,
                      ptRowGrandTotals = Some (RowGrandTotals opts),
                      ptColGrandTotals = Some (ColGrandTotals opts),
                      ptShowDrill = Some (ShowDrill opts),
                      ptUseAutoFormatting = Some (UseAutoFormatting opts),
                      ptPageOverThenDown = Some (PageOverThenDown opts),
                      ptMergeItem = Some (MergeItem opts),
                      ptCompactData = Some (CompactData opts),
                      ptShowError = Some (ShowError opts),
                      ptDataCaption = ''Values'',
                      ptLocation = Some \<lparr>locRef = topLeftCell @ '':'' @ bottomRightCell,
                                          FirstDataCol = 1, FirstDataRow = 1, FirstHeaderRow = 1\<rparr>,
                      ptPivotFields = Some \<lparr>pivotFieldsCount = 0, PivotField = []\<rparr>,
                      ptRowFields = None, ptColFields = None, ptPageFields = None,
                      ptDataFields = None,
                      ptPivotTableStyleInfo = Some
                        \<lparr>siName = pivotTableStyle,
                         siShowRowHeaders = ShowRowHeaders opts,
                         siShowColHeaders = ShowColHeaders opts,
                         siShowRowStripes = ShowRowStripes opts,
                         siShowColStripes = ShowColStripes opts,
                         siShowLastColumn = ShowLastColumn opts\<rparr>\<rparr>;
               pt1 = (if ptName pt0 = [] then pt0\<lparr>ptName := ''PivotTable'' @ Itoa pivotTableID\<rparr>
                      else pt0)
           in (case addPivotFields f pt1 opts of
                 (_, pt2, opts2) \<Rightarrow>
                   (let pt3 = pt2\<lparr>ptPivotFields :=
                                 map_option (\<lambda>pfs. pfs\<lparr>pivotFieldsCount := int (length (PivotField pfs))\<rparr>)
                                   (ptPivotFields pt2)\<rparr>
                    in (case addPivotRowFields f pt3 opts2 of
                          (_, pt4, opts4) \<Rightarrow>
                            (case addPivotColFields f pt4 opts4 of
                               (_, pt5, opts5) \<Rightarrow>
                                 (case addPivotPageFields f pt5 opts5 of
                                    (_, pt6, opts6) \<Rightarrow>
                                      (case addPivotDataFields f pt6 opts6 of
                                         (_, pt7, opts7) \<Rightarrow>
                                           (None,
                                            saveFileList f (pivotTableXML opts7) (PivotTablePart pt7),
                                            opts7)))))))))"

subsection \<open>Adding a pivot table\<close>

definition AddPivotTable :: "File \<Rightarrow> PivotTableOptions option \<Rightarrow> error option \<times> File" where
  "AddPivotTable f optsp =
     (case parseFormatPivotTableSet f optsp of
        Inl err \<Rightarrow> (Some err, f)
      | Inr (pivotTableSheetPath, opts0) \<Rightarrow>
          (let pivotTableID = countPivotTables f + 1;
               pivotCacheID = countPivotCache f + 1;
               sheetRelationshipsPivotTableXML =
                 ''../pivotTables/pivotTable'' @ Itoa pivotTableID @ ''.xml'';
               opts1 = opts0\<lparr>pivotTableXML := dotsToXl sheetRelationshipsPivotTableXML,
                             pivotCacheXML :=
                               ''xl/pivotCache/pivotCacheDefinition'' @ Itoa pivotCacheID @ ''.xml''\<rparr>
           in (case addPivotCache f opts1 of
                 (Some err, f1, _) \<Rightarrow> (Some err, f1)
               | (None, f1, opts2) \<Rightarrow>
                   (case addRels f1 (getWorkbookRelsPath f1) SourceRelationshipPivotCache
                           (TrimPrefix (pivotCacheXML opts2) ''xl/'') of
                      (workBookPivotCacheRID, f2) \<Rightarrow>
                        (case addWorkbookPivotCache f2 workBookPivotCacheRID of
                           (cacheID, f3) \<Rightarrow>
                             (let pivotCacheRels =
                                    ''xl/pivotTables/_rels/pivotTable'' @ Itoa pivotTableID @ ''.xml.rels'';
                                  f4 = snd (addRels f3 pivotCacheRels SourceRelationshipPivotCache
                                              (''../pivotCache/pivotCacheDefinition''
                                                 @ Itoa pivotCacheID @ ''.xml''))
                              in (case addPivotTable f4 cacheID pivotTableID opts2 of
                                    (Some err, f5, _) \<Rightarrow> (Some err, f5)
                                  | (None, f5, _) \<Rightarrow>
                                      (let pivotTableSheetRels =
                                             ''xl/worksheets/_rels/''
                                               @ TrimPrefix pivotTableSheetPath ''xl/worksheets/''
                                               @ ''.rels'';
                                           f6 = snd (addRels f5 pivotTableSheetRels
                                                       SourceRelationshipPivotTable
                                                       sheetRelationshipsPivotTableXML)
                                       in (case addContentTypePart f6 pivotTableID ''pivotTable'' of
                                             (Some err, f7) \<Rightarrow> (Some err, f7)
                                           | (None, f7) \<Rightarrow>
                                               addContentTypePart f7 pivotCacheID ''pivotCache'')))))))))"

subsection \<open>Reading pivot tables back\<close>

definition zeroPivotTableDefinition :: xlsxPivotTableDefinition where
  "zeroPivotTableDefinition =
     \<lparr>ptName = [], ptCacheID = 0, ptRowGrandTotals = None, ptColGrandTotals = None,
      ptShowDrill = None, ptUseAutoFormatting = None, ptPageOverThenDown = None,
      ptMergeItem = None, ptCompactData = None, ptShowError = None, ptDataCaption = [],
      ptLocation = None, ptPivotFields = None, ptRowFields = None, ptColFields = None,
      ptPageFields = None, ptDataFields = None, ptPivotTableStyleInfo = None\<rparr>"

definition zeroPivotCacheDefinition :: xlsxPivotCacheDefinition where
  "zeroPivotCacheDefinition =
     \<lparr>SaveData = False, RefreshOnLoad = False, CacheSource = None, CacheFields = None\<rparr>"

text \<open>
  The readers give the zero struct for a path with no part. The decoder is outside the
  given sources: a part that holds something else than the struct asked for is reported
  as an error of the decoder.
\<close>

definition pivotTableReader :: "File \<Rightarrow> string \<Rightarrow> error + xlsxPivotTableDefinition" where
  "pivotTableReader f path =
     (case map_of (Pkg f) path of
        None \<Rightarrow> Inr zeroPivotTableDefinition
      | Some (PivotTablePart pt) \<Rightarrow> Inr pt
      | Some _ \<Rightarrow> Inl (ErrExternal ''xml''))"

definition pivotCacheReader :: "File \<Rightarrow> string \<Rightarrow> error + xlsxPivotCacheDefinition" where
  "pivotCacheReader f path =
     (case map_of (Pkg f) path of
        None \<Rightarrow> Inr zeroPivotCacheDefinition
      | Some (PivotCachePart pc) \<Rightarrow> Inr pc
      | Some _ \<Rightarrow> Inl (ErrExternal ''xml''))"

text \<open>
  \<^verbatim>\<open>extractPivotTableField\<close> copies by reflection the fields named \<^verbatim>\<open>Compact\<close>,
  \<^verbatim>\<open>Name\<close>, \<^verbatim>\<open>Outline\<close>, \<^verbatim>\<open>Subtotal\<close> and \<^verbatim>\<open>DefaultSubtotal\<close>: a string is copied,
  a pointer to a boolean is copied when it is not nil. The descriptor has no field named
  \<^verbatim>\<open>Subtotal\<close>.
\<close>

definition extractPivotTableField :: "string \<Rightarrow> xlsxPivotField \<Rightarrow> PivotTableField" where
  "extractPivotTableField data fld =
     \<lparr>fldCompact = (case pfCompact fld of Some b \<Rightarrow> b | None \<Rightarrow> False),
      fldData = data,
      fldName = pfName fld,
      fldOutline = (case pfOutline fld of Some b \<Rightarrow> b | None \<Rightarrow> False),
      fldSubtotal = [],
      fldDefaultSubtotal = (case pfDefaultSubtotal fld of Some b \<Rightarrow> b | None \<Rightarrow> False)\<rparr>"

text \<open>
  The two loops of \<^verbatim>\<open>extractPivotTableFields\<close>. \<open>order[fieldIdx]\<close> and \<open>order[field.Fld]\<close>
  panic out of range. The three tests of the axis are on distinct strings, so at most one
  of them holds.
\<close>

fun extractAxisFields ::
  "string list \<Rightarrow> nat \<Rightarrow> xlsxPivotField list \<Rightarrow> PivotTableOptions \<Rightarrow> error + PivotTableOptions" where
  "extractAxisFields order fieldIdx [] opts = Inr opts"
| "extractAxisFields order fieldIdx (field # rest) opts =
     (if pfAxis field = ''axisRow'' then
        (if fieldIdx < length order
         then extractAxisFields order (fieldIdx + 1) rest
                (opts\<lparr>Rows := Rows opts @ [extractPivotTableField (order ! fieldIdx) field]\<rparr>)
         else Inl Panic)
      else if pfAxis field = ''axisCol'' then
        (if fieldIdx < length order
         then extractAxisFields order (fieldIdx + 1) rest
                (opts\<lparr>Columns := Columns opts @ [extractPivotTableField (order ! fieldIdx) field]\<rparr>)
         else Inl Panic)
      else if pfAxis field = ''axisPage'' then
        (if fieldIdx < length order
         then extractAxisFields order (fieldIdx + 1) rest
                (opts\<lparr>Filter := Filter opts @ [extractPivotTableField (order ! fieldIdx) field]\<rparr>)
         else Inl Panic)
      else extractAxisFields order (fieldIdx + 1) rest opts)"

fun extractDataFields ::
  "File \<Rightarrow> string list \<Rightarrow> xlsxDataField list \<Rightarrow> PivotTableOptions \<Rightarrow> error + PivotTableOptions" where
  "extractDataFields f order [] opts = Inr opts"
| "extractDataFields f order (field # rest) opts =
     (if 0 \<le> dfFld field \<and> dfFld field < int (length order)
      then extractDataFields f order rest
             (opts\<lparr>Data := Data opts @
                [\<lparr>fldCompact = False, fldData = order ! nat (dfFld field), fldName = dfName field,
                  fldOutline = False, fldSubtotal = Title f (dfSubtotal field),
                  fldDefaultSubtotal = False\<rparr>]\<rparr>)
      else Inl Panic)"

definition extractPivotTableFields ::
  "File \<Rightarrow> string list \<Rightarrow> xlsxPivotTableDefinition \<Rightarrow> PivotTableOptions \<Rightarrow> error + PivotTableOptions" where
  "extractPivotTableFields f order pt opts =
     (case ptPivotFields pt of
        None \<Rightarrow> Inl Panic
      | Some pfs \<Rightarrow>
          (case extractAxisFields order 0 (PivotField pfs) opts of
             Inl err \<Rightarrow> Inl err
           | Inr opts' \<Rightarrow>
               (case ptDataFields pt of
                  None \<Rightarrow> Inr opts'
                | Some dfs \<Rightarrow> extractDataFields f order (DataField dfs) opts')))"

definition zeroPivotTableOptions :: PivotTableOptions where
  "zeroPivotTableOptions =
     \<lparr>pivotTableXML = [], pivotCacheXML = [], pivotSheetName = [], pivotDataRange = [],
      namedDataRange = False, DataRange = [], PivotTableRange = [], Name = [], Rows = [],
      Columns = [], Data = [], Filter = [], RowGrandTotals = False, ColGrandTotals = False,
      ShowDrill = False, UseAutoFormatting = False, PageOverThenDown = False, MergeItem = False,
      CompactData = False, ShowError = False, ShowRowHeaders = False, ShowColHeaders = False,
      ShowRowStripes = False, ShowColStripes = False, ShowLastColumn = False,
      PivotTableStyleName = []\<rparr>"

text \<open>The reflective copy of the eight display options: a nil pointer copies nothing.\<close>

definition copyDisplayOptions :: "xlsxPivotTableDefinition \<Rightarrow> PivotTableOptions \<Rightarrow> PivotTableOptions" where
  "copyDisplayOptions pt opts =
     opts\<lparr>RowGrandTotals := (case ptRowGrandTotals pt of Some b \<Rightarrow> b | None \<Rightarrow> RowGrandTotals opts),
          ColGrandTotals := (case ptColGrandTotals pt of Some b \<Rightarrow> b | None \<Rightarrow> ColGrandTotals opts),
          ShowDrill := (case ptShowDrill pt of Some b \<Rightarrow> b | None \<Rightarrow> ShowDrill opts),
          UseAutoFormatting :=
            (case ptUseAutoFormatting pt of Some b \<Rightarrow> b | None \<Rightarrow> UseAutoFormatting opts),
          PageOverThenDown :=
            (case ptPageOverThenDown pt of Some b \<Rightarrow> b | None \<Rightarrow> PageOverThenDown opts),
          MergeItem := (case ptMergeItem pt of Some b \<Rightarrow> b | None \<Rightarrow> MergeItem opts),
          CompactData := (case ptCompactData pt of Some b \<Rightarrow> b | None \<Rightarrow> CompactData opts),
          ShowError := (case ptShowError pt of Some b \<Rightarrow> b | None \<Rightarrow> ShowError opts)\<rparr>"

definition copyStyleInfo :: "xlsxPivotTableDefinition \<Rightarrow> PivotTableOptions \<Rightarrow> PivotTableOptions" where
  "copyStyleInfo pt opts =
     (case ptPivotTableStyleInfo pt of
        None \<Rightarrow> opts
      | Some si \<Rightarrow>
          opts\<lparr>ShowRowHeaders := siShowRowHeaders si, ShowColHeaders := siShowColHeaders si,
               ShowRowStripes := siShowRowStripes si, ShowColStripes := siShowColStripes si,
               ShowLastColumn := siShowLastColumn si, PivotTableStyleName := siName si\<rparr>)"

text \<open>
  \<^verbatim>\<open>getPivotTable\<close>: \<open>rels.Relationships\<close>, \<open>pc.CacheSource.WorksheetSource\<close> and
  \<open>pt.Location.Ref\<close> dereference pointers that may be nil.
\<close>

definition getPivotTable :: "File \<Rightarrow> string \<Rightarrow> string \<Rightarrow> string \<Rightarrow> error + PivotTableOptions" where
  "getPivotTable f sheet ptXML pivotCacheRels =
     (case relsReader f pivotCacheRels of
        Inl err \<Rightarrow> Inl err
      | Inr None \<Rightarrow> Inl Panic
      | Inr (Some rels) \<Rightarrow>
          (let pcXML = (case find (\<lambda>v. relType v = SourceRelationshipPivotCache) rels of
                          Some v \<Rightarrow> dotsToXl (relTarget v) | None \<Rightarrow> [])
           in (case pivotCacheReader f pcXML of
                 Inl err \<Rightarrow> Inl err
               | Inr pc \<Rightarrow>
                   (case pivotTableReader f ptXML of
                      Inl err \<Rightarrow> Inl err
                    | Inr pt \<Rightarrow>
                        (case CacheSource pc of
                           None \<Rightarrow> Inl Panic
                         | Some cs \<Rightarrow>
                             (case WorksheetSource cs of
                                None \<Rightarrow> Inl Panic
                              | Some ws \<Rightarrow>
                                  (case ptLocation pt of
                                     None \<Rightarrow> Inl Panic
                                   | Some loc \<Rightarrow>
                                       (let opts0 = zeroPivotTableOptions
                                              \<lparr>pivotTableXML := ptXML, pivotCacheXML := pcXML,
                                               pivotSheetName := sheet,
                                               DataRange := wsSheet ws @ ''!'' @ wsRef ws,
                                               PivotTableRange := sheet @ ''!'' @ locRef loc,
                                               Name := ptName pt\<rparr>;
                                            opts1 = (if wsName ws \<noteq> []
                                                     then snd (getPivotTableDataRange f
                                                                 (opts0\<lparr>DataRange := wsName ws\<rparr>))
                                                     else opts0);
                                            opts2 = copyStyleInfo pt (copyDisplayOptions pt opts1)
                                        in (case getTableFieldsOrder f opts2 of
                                              ((order, Some err), _) \<Rightarrow> Inl err
                                            | ((order, None), opts3) \<Rightarrow>
                                                extractPivotTableFields f order pt opts3)))))))))"

text \<open>
  \<^verbatim>\<open>GetPivotTables\<close> returns the tables read before an error together with the error.
\<close>

fun pivotTablesOf :: "File \<Rightarrow> string \<Rightarrow> xlsxRelationship list \<Rightarrow> PivotTableOptions list \<times> error option" where
  "pivotTablesOf f sheet [] = ([], None)"
| "pivotTablesOf f sheet (v # rest) =
     (if relType v = SourceRelationshipPivotTable then
        (case getPivotTable f sheet (dotsToXl (relTarget v))
                (''xl/pivotTables/_rels/'' @ Base (relTarget v) @ ''.rels'') of
           Inl err \<Rightarrow> ([], Some err)
         | Inr pivotTable \<Rightarrow>
             (case pivotTablesOf f sheet rest of
                (pivotTables, err) \<Rightarrow> (pivotTable # pivotTables, err)))
      else pivotTablesOf f sheet rest)"

definition sheetRelsPath :: "string \<Rightarrow> string" where
  "sheetRelsPath sheetXML =
     ''xl/worksheets/_rels/'' @ TrimPrefix sheetXML ''xl/worksheets/'' @ ''.rels''"

definition GetPivotTables :: "File \<Rightarrow> string \<Rightarrow> PivotTableOptions list \<times> error option" where
  "GetPivotTables f sheet =
     (case getSheetXMLPath f sheet of
        None \<Rightarrow> ([], Some (ErrSheetNotExist sheet))
      | Some name \<Rightarrow>
          (case relsReader f (sheetRelsPath name) of
             Inl err \<Rightarrow> ([], Some err)
           | Inr sheetRels \<Rightarrow>
               pivotTablesOf f sheet (case sheetRels of None \<Rightarrow> [] | Some rels \<Rightarrow> rels)))"

subsection \<open>Deleting a pivot table\<close>

text \<open>
  Modelled from the spec: \<^verbatim>\<open>deleteWorkbookRels\<close> is not in the given sources. It removes
  the relationship of the workbook with the given type and target (``remove the
  workbook-level cache registration (relationship + registry entry)'') and returns its
  ID, the empty string when there is none, or the error of reading the relationship part.
\<close>

definition deleteWorkbookRels :: "File \<Rightarrow> string \<Rightarrow> string \<Rightarrow> string \<times> error option \<times> File" where
  "deleteWorkbookRels f rType rTarget =
     (case relsReader f (getWorkbookRelsPath f) of
        Inl err \<Rightarrow> ([], Some err, f)
      | Inr None \<Rightarrow> ([], None, f)
      | Inr (Some rels) \<Rightarrow>
          (let hit = (\<lambda>v. relType v = rType \<and> relTarget v = rTarget);
               rID = (case filter hit rels of [] \<Rightarrow> [] | v # vs \<Rightarrow> relID (last (v # vs)))
           in (rID, None,
               f\<lparr>relsReader := (relsReader f)
                    (getWorkbookRelsPath f := Inr (Some (filter (\<lambda>v. \<not> hit v) rels)))\<rparr>)))"

text \<open>
  Modelled from the spec: \<^verbatim>\<open>deleteSheetRelationships\<close> is not in the given sources. It
  removes the relationship with the given ID from the relationship part of the sheet
  (``remove the sheet\<rightarrow>table relationship'').
\<close>

definition deleteSheetRelationships :: "File \<Rightarrow> string \<Rightarrow> string \<Rightarrow> File" where
  "deleteSheetRelationships f sheet rID =
     (case getSheetXMLPath f sheet of
        None \<Rightarrow> f
      | Some name \<Rightarrow>
          (case relsReader f (sheetRelsPath name) of
             Inr (Some rels) \<Rightarrow>
               f\<lparr>relsReader := (relsReader f)
                    (sheetRelsPath name := Inr (Some (filter (\<lambda>v. relID v \<noteq> rID) rels)))\<rparr>
           | _ \<Rightarrow> f))"

text \<open>
  The loop of \<^verbatim>\<open>deleteWorkbookPivotCache\<close> changes the slice it ranges over. A Go
  \<^verbatim>\<open>range\<close> fixes the number of iterations at the start and reads element \<open>i\<close> from the
  backing array at iteration \<open>i\<close>; \<^verbatim>\<open>append(s[:i], s[i+1:]...)\<close> moves the elements after
  \<open>i\<close> one place down in that same array and makes the slice one shorter, and
  \<^verbatim>\<open>s[i+1:]\<close> panics when \<open>i + 1\<close> is beyond the length of the slice. The state of the
  loop is the backing array \<open>arr\<close> and the length \<open>n\<close> of the slice; the result is the
  slice at the end, or \<open>None\<close> for the panic.
\<close>

fun removePivotCaches ::
  "string \<Rightarrow> nat list \<Rightarrow> xlsxPivotCache list \<Rightarrow> nat \<Rightarrow> xlsxPivotCache list option" where
  "removePivotCaches rID [] arr n = Some (take n arr)"
| "removePivotCaches rID (i # is) arr n =
     (if RID (arr ! i) = rID
      then (if i + 1 \<le> n
            then removePivotCaches rID is
                   (take i arr @ drop (i + 1) (take n arr) @ drop (n - 1) arr) (n - 1)
            else None)
      else removePivotCaches rID is arr n)"

definition deleteWorkbookPivotCache :: "File \<Rightarrow> PivotTableOptions \<Rightarrow> error option \<times> File" where
  "deleteWorkbookPivotCache f opt =
     (case deleteWorkbookRels f SourceRelationshipPivotCache
             (TrimPrefix (TrimPrefix (pivotCacheXML opt) ''/'') ''xl/'') of
        (rID, Some err, f1) \<Rightarrow> (Some err, f1)
      | (rID, None, f1) \<Rightarrow>
          (case PivotCaches f1 of
             None \<Rightarrow> (None, f1)
           | Some caches \<Rightarrow>
               (case removePivotCaches rID [0..<length caches] caches (length caches) of
                  None \<Rightarrow> (Some Panic, f1)
                | Some caches' \<Rightarrow>
                    (None, f1\<lparr>PivotCaches := (if length caches' = 0 then None else Some caches')\<rparr>))))"

text \<open>
  The two nested loops of \<^verbatim>\<open>DeletePivotTable\<close>: the first relationship, and for it the
  first table, that pass the tests.
\<close>

fun matchPivotTable ::
  "string \<Rightarrow> xlsxRelationship list \<Rightarrow> PivotTableOptions list
     \<Rightarrow> (xlsxRelationship \<times> PivotTableOptions) option" where
  "matchPivotTable name [] opts = None"
| "matchPivotTable name (v # rest) opts =
     (case find (\<lambda>opt. relType v = SourceRelationshipPivotTable \<and> Name opt = name
                        \<and> pivotTableXML opt = dotsToXl (relTarget v)) opts of
        Some opt \<Rightarrow> Some (v, opt)
      | None \<Rightarrow> matchPivotTable name rest opts)"

text \<open>
  \<^verbatim>\<open>pivotTableCaches[path]\<close>: how many tables of all sheets have this cache part. The
  error of \<^verbatim>\<open>GetPivotTables\<close> is discarded in that loop; a panic cannot be discarded.
\<close>

definition pivotTableCaches :: "File \<Rightarrow> string \<Rightarrow> int" where
  "pivotTableCaches f path =
     int (length (filter (\<lambda>sheetPivotTable. pivotCacheXML sheetPivotTable = path)
                    (concat (map (\<lambda>sheetName. fst (GetPivotTables f sheetName)) (GetSheetList f)))))"

definition DeletePivotTable :: "File \<Rightarrow> string \<Rightarrow> string \<Rightarrow> error option \<times> File" where
  "DeletePivotTable f sheet name =
     (case getSheetXMLPath f sheet of
        None \<Rightarrow> (Some (ErrSheetNotExist sheet), f)
      | Some sheetXML \<Rightarrow>
          (case relsReader f (sheetRelsPath sheetXML) of
             Inl err \<Rightarrow> (Some err, f)
           | Inr sheetRels \<Rightarrow>
               (case GetPivotTables f sheet of
                  (_, Some err) \<Rightarrow> (Some err, f)
                | (opts, None) \<Rightarrow>
                    if list_ex (\<lambda>sheetName. snd (GetPivotTables f sheetName) = Some Panic)
                         (GetSheetList f)
                    then (Some Panic, f)
                    else (case matchPivotTable name
                                 (case sheetRels of None \<Rightarrow> [] | Some rels \<Rightarrow> rels) opts of
                            None \<Rightarrow> (Some (NoExistTableError name), f)
                          | Some (v, opt) \<Rightarrow>
                              if pivotTableCaches f (pivotCacheXML opt) = 1
                              then (case deleteWorkbookPivotCache f opt of
                                      (Some Panic, f1) \<Rightarrow> (Some Panic, f1)
                                    | (err, f1) \<Rightarrow> (err, deleteSheetRelationships f1 sheet (relID v)))
                              else (None, deleteSheetRelationships f sheet (relID v))))))"

subsection \<open>Notions used to state the properties\<close>

text \<open>
  Two files give the same answers about sheets, cells, tables and names: the functions
  that add parts and relationships change none of these.
\<close>

definition sameSheets :: "File \<Rightarrow> File \<Rightarrow> bool" where
  "sameSheets f g \<longleftrightarrow>
     rangeRefToCoordinates g = rangeRefToCoordinates f
     \<and> CoordinatesToCellName g = CoordinatesToCellName f
     \<and> GetCellValue g = GetCellValue f
     \<and> GetSheetList g = GetSheetList f
     \<and> getSheetXMLPath g = getSheetXMLPath f
     \<and> workSheetReader g = workSheetReader f
     \<and> GetTables g = GetTables f
     \<and> getDefinedNameRefTo g = getDefinedNameRefTo f
     \<and> getWorkbookRelsPath g = getWorkbookRelsPath f"

text \<open>
  The paths that \<^verbatim>\<open>AddPivotTable\<close> gives to the new table part (\<^verbatim>\<open>opts.pivotTableXML\<close>)
  and to the new cache part (\<^verbatim>\<open>opts.pivotCacheXML\<close>).
\<close>

definition tablePath :: "File \<Rightarrow> string" where
  "tablePath f = dotsToXl (''../pivotTables/pivotTable'' @ Itoa (countPivotTables f + 1) @ ''.xml'')"

definition cachePath :: "File \<Rightarrow> string" where
  "cachePath f = ''xl/pivotCache/pivotCacheDefinition'' @ Itoa (countPivotCache f + 1) @ ''.xml''"

text \<open>
  The column-field list and the data-field list of the emitted table definition, as
  functions of the field order and the options.
\<close>

definition colFieldsFor :: "string list \<Rightarrow> PivotTableOptions \<Rightarrow> xlsxColFields option" where
  "colFieldsFor order opts =
     (if Columns opts = [] \<and> length (Data opts) \<le> 1 then None
      else Some \<lparr>colFieldsCount = int (length (fieldsIndex order (Columns opts)
                                      @ (if length (Data opts) > 1 then [- 2] else []))),
                 colField = fieldsIndex order (Columns opts)
                              @ (if length (Data opts) > 1 then [- 2] else [])\<rparr>)"

definition dataFieldsFor :: "string list \<Rightarrow> PivotTableOptions \<Rightarrow> xlsxDataFields option" where
  "dataFieldsFor order opts =
     (if fieldsIndex order (Data opts) = [] then None
      else Some \<lparr>dataFieldsCount =
                   int (length (zip (fieldsIndex order (Data opts))
                                  (zip (getPivotTableFieldsName (Data opts))
                                     (getPivotTableFieldsSubtotal (Data opts))))),
                 DataField = map (\<lambda>(dataField, name, subtotal).
                                    \<lparr>dfName = name, dfFld = dataField, dfSubtotal = subtotal\<rparr>)
                               (zip (fieldsIndex order (Data opts))
                                  (zip (getPivotTableFieldsName (Data opts))
                                     (getPivotTableFieldsSubtotal (Data opts))))\<rparr>)"



subsection \<open>An example workbook\<close>

text \<open>
  The workbook of the example in the documentation of \<^verbatim>\<open>AddPivotTable\<close>: one sheet
  \<open>Sheet1\<close> whose first row holds the headers Month, Year, Type, Sales and Region, no pivot
  table yet. The address functions are given by their answers on the references and cells
  that the examples use.
\<close>

definition demoCoordinates :: "string \<Rightarrow> error + int \<times> int \<times> int \<times> int" where
  "demoCoordinates ref =
     (if ref = ''A1:E31'' then Inr (1, 1, 5, 31)
      else if ref = ''E31:A1'' then Inr (5, 31, 1, 1)
      else if ref = ''G2:M34'' then Inr (7, 2, 13, 34)
      else if ref = ''A1:A1'' then Inr (1, 1, 1, 1)
      else if ref = ''A1:F31'' then Inr (1, 1, 6, 31)
      else Inl ErrParameterInvalid)"

definition demoCellName :: "int \<Rightarrow> int \<Rightarrow> string" where
  "demoCellName col row =
     (if row = 1 \<and> 1 \<le> col \<and> col \<le> 6 then [char_of (64 + nat col)] @ ''1''
      else if (col, row) = (5, 31) then ''E31''
      else if (col, row) = (6, 31) then ''F31''
      else if (col, row) = (7, 2) then ''G2''
      else if (col, row) = (13, 34) then ''M34''
      else [])"

definition demoCells :: "string \<Rightarrow> string \<Rightarrow> error + string" where
  "demoCells sheet cell =
     (if sheet \<noteq> ''Sheet1'' then Inl (ErrSheetNotExist sheet)
      else if cell = ''A1'' then Inr ''Month''
      else if cell = ''B1'' then Inr ''Year''
      else if cell = ''C1'' then Inr ''Type''
      else if cell = ''D1'' then Inr ''Sales''
      else if cell = ''E1'' then Inr ''Region''
      else Inr [])"

definition book :: File where
  "book =
     \<lparr>rangeRefToCoordinates = demoCoordinates,
      CoordinatesToCellName = demoCellName,
      GetCellValue = demoCells,
      GetSheetList = [''Sheet1''],
      getSheetXMLPath = [''Sheet1'' \<mapsto> ''xl/worksheets/sheet1.xml''],
      workSheetReader = (\<lambda>sheet. if sheet = ''Sheet1'' then None else Some (ErrSheetNotExist sheet)),
      GetTables = (\<lambda>sheet. ([], None)),
      getDefinedNameRefTo = (\<lambda>name sheet. []),
      Title = (\<lambda>s. s),
      getWorkbookRelsPath = ''xl/_rels/workbook.xml.rels'',
      Pkg = [],
      relsReader = (\<lambda>path. Inr None),
      PivotCaches = None,
      ContentTypes = []\<rparr>"

definition fieldOf :: "string \<Rightarrow> PivotTableField" where
  "fieldOf name = zeroPivotTableField\<lparr>fldData := name\<rparr>"

text \<open>
  The options of that example, with a display name on the filter field and a second data
  field, Year, which is also a row field. The table name is left empty.
\<close>

definition demoOptions :: PivotTableOptions where
  "demoOptions =
     zeroPivotTableOptions
       \<lparr>DataRange := ''Sheet1!A1:E31'', PivotTableRange := ''Sheet1!G2:M34'',
        Rows := [(fieldOf ''Month'')\<lparr>fldDefaultSubtotal := True\<rparr>, fieldOf ''Year''],
        Columns := [(fieldOf ''Type'')\<lparr>fldDefaultSubtotal := True\<rparr>],
        Data := [(fieldOf ''Sales'')\<lparr>fldName := ''Summarize'', fldSubtotal := ''Sum''\<rparr>,
                 (fieldOf ''Year'')\<lparr>fldSubtotal := ''Count''\<rparr>],
        Filter := [(fieldOf ''Region'')\<lparr>fldName := ''Where''\<rparr>]\<rparr>"

definition demoHeader :: "string list" where
  "demoHeader = [''Month'', ''Year'', ''Type'', ''Sales'', ''Region'']"

text \<open>The options as the validation leaves them: the sheet and the data range resolved.\<close>

definition demoResolved :: PivotTableOptions where
  "demoResolved = demoOptions\<lparr>pivotSheetName := ''Sheet1'', pivotDataRange := ''Sheet1!A1:E31''\<rparr>"

definition demoAfter :: File where
  "demoAfter = snd (AddPivotTable book (Some demoOptions))"

text \<open>Variants of the options: a data range with an unnamed column, a row field that is not
  a column of the data, long names, and a missing table range.\<close>

definition emptyHeaderOptions :: PivotTableOptions where
  "emptyHeaderOptions = demoOptions\<lparr>DataRange := ''Sheet1!A1:F31''\<rparr>"

definition absentNameOptions :: PivotTableOptions where
  "absentNameOptions = demoOptions\<lparr>Rows := [fieldOf ''Quarter'']\<rparr>"

definition longNameOptions :: PivotTableOptions where
  "longNameOptions = demoOptions\<lparr>Name := replicate 256 (CHR ''x'')\<rparr>"

definition longNameNoRangeOptions :: PivotTableOptions where
  "longNameNoRangeOptions = longNameOptions\<lparr>PivotTableRange := []\<rparr>"

definition emptyHeaderResolved :: PivotTableOptions where
  "emptyHeaderResolved =
     emptyHeaderOptions\<lparr>pivotSheetName := ''Sheet1'', pivotDataRange := ''Sheet1!A1:F31''\<rparr>"

definition demoCell :: "int \<Rightarrow> string" where
  "demoCell col = (if 1 \<le> col \<and> col \<le> 5 then demoHeader ! nat (col - 1) else [])"

text \<open>
  Further variants: a filter field that is also a column field, with a display name on
  each entry; long display names on a row, a column and a data field; and a data list
  whose first entry is not a column of the data.
\<close>

definition filterColumnOptions :: PivotTableOptions where
  "filterColumnOptions =
     demoOptions\<lparr>Columns := [(fieldOf ''Type'')\<lparr>fldDefaultSubtotal := True\<rparr>,
                              (fieldOf ''Region'')\<lparr>fldName := ''Area''\<rparr>]\<rparr>"

definition longFieldsOptions :: PivotTableOptions where
  "longFieldsOptions =
     demoOptions\<lparr>Rows := [(fieldOf ''Month'')\<lparr>fldName := replicate 300 (CHR ''r'')\<rparr>],
                 Columns := [(fieldOf ''Type'')\<lparr>fldName := replicate 300 (CHR ''c'')\<rparr>],
                 Data := [(fieldOf ''Sales'')\<lparr>fldName := replicate 300 (CHR ''n'')\<rparr>]\<rparr>"

definition longFieldsResolved :: PivotTableOptions where
  "longFieldsResolved =
     longFieldsOptions\<lparr>pivotSheetName := ''Sheet1'', pivotDataRange := ''Sheet1!A1:E31''\<rparr>"

definition strayDataOptions :: PivotTableOptions where
  "strayDataOptions =
     demoOptions\<lparr>Data := [(fieldOf ''Bogus'')\<lparr>fldName := ''b''\<rparr>,
                           (fieldOf ''Sales'')\<lparr>fldName := replicate 300 (CHR ''n'')\<rparr>]\<rparr>"

text \<open>
  A workbook as another producer may write it: two pivot tables on the sheet that share
  one cache part, and the states after deleting the first and then the second. Then the
  example workbook with relationship parts that cannot be read, and the workbook with
  the second table only on the sheet and a relationship part of the workbook that cannot
  be read.
\<close>

definition tableRel :: "string \<Rightarrow> string \<Rightarrow> xlsxRelationship" where
  "tableRel rID target = \<lparr>relID = rID, relType = SourceRelationshipPivotTable, relTarget = target\<rparr>"

definition cacheRel :: "string \<Rightarrow> string \<Rightarrow> xlsxRelationship" where
  "cacheRel rID target = \<lparr>relID = rID, relType = SourceRelationshipPivotCache, relTarget = target\<rparr>"

definition sharedTable :: "string \<Rightarrow> part" where
  "sharedTable name =
     PivotTablePart
       (zeroPivotTableDefinition
          \<lparr>ptName := name, ptCacheID := 2,
           ptLocation := Some \<lparr>locRef = ''G2:M34'', FirstDataCol = 1, FirstDataRow = 1,
                               FirstHeaderRow = 1\<rparr>,
           ptPivotFields := Some \<lparr>pivotFieldsCount = 0, PivotField = []\<rparr>\<rparr>)"

definition sharedCache :: part where
  "sharedCache =
     PivotCachePart
       (zeroPivotCacheDefinition
          \<lparr>CacheSource :=
             Some \<lparr>csType = ''worksheet'',
                   WorksheetSource = Some \<lparr>wsRef = ''A1:E31'', wsSheet = ''Sheet1'', wsName = []\<rparr>\<rparr>\<rparr>)"

definition sharedBook :: File where
  "sharedBook =
     book\<lparr>Pkg := [(''xl/pivotCache/pivotCacheDefinition1.xml'', sharedCache),
                  (''xl/pivotTables/pivotTable1.xml'', sharedTable ''PivotTable1''),
                  (''xl/pivotTables/pivotTable2.xml'', sharedTable ''Second'')],
          relsReader :=
            (\<lambda>path.
               if path = ''xl/_rels/workbook.xml.rels''
               then Inr (Some [cacheRel ''rId1'' ''pivotCache/pivotCacheDefinition1.xml''])
               else if path = ''xl/worksheets/_rels/sheet1.xml.rels''
               then Inr (Some [tableRel ''rId1'' ''../pivotTables/pivotTable1.xml'',
                               tableRel ''rId2'' ''../pivotTables/pivotTable2.xml''])
               else if path = ''xl/pivotTables/_rels/pivotTable1.xml.rels''
                     \<or> path = ''xl/pivotTables/_rels/pivotTable2.xml.rels''
               then Inr (Some [cacheRel ''rId1'' ''../pivotCache/pivotCacheDefinition1.xml''])
               else Inr None),
          PivotCaches := Some [\<lparr>CacheID = 2, RID = ''rId1''\<rparr>]\<rparr>"



definition unreadableBook :: File where
  "unreadableBook = book\<lparr>relsReader := (\<lambda>path. Inl (ErrExternal ''xml''))\<rparr>"


section \<open>Properties\<close>

subsection \<open>Range geometry\<close>

lemma Split_no_sep: "sep \<notin> set s \<Longrightarrow> Split s sep = [s]"
  by (induction s) auto

lemma Split_append_sep: "sep \<notin> set s \<Longrightarrow> Split (s @ sep # r) sep = s # Split r sep"
  by (induction s) auto

lemma adjustRange_qualified:
  assumes "CHR ''!'' \<notin> set sheet" "CHR ''!'' \<notin> set r"
    and "rangeRefToCoordinates f (trimDollar r) = Inr (a, b, c, d)"
  shows "adjustRange f (sheet @ ''!'' @ r) =
           (if a = c \<and> b = d then Inl (sheet, ErrParameterInvalid)
            else Inr (sheet, min a c, min b d, max a c, max b d))"
  using assms by (auto simp: adjustRange_def Split_append_sep Split_no_sep min_def max_def)

text \<open>
  Claim C6. Let \<open>sheet!r\<close> be a sheet-qualified reference whose corners are the cells
  \<open>(a, b)\<close> and \<open>(c, d)\<close>, let \<open>r'\<close> be the reference with the two corners swapped, and
  \<open>r''\<close> any reference for the normalized rectangle. If the corners are the same cell,
  \<open>adjustRange\<close> fails with \<open>ErrParameterInvalid\<close>. Otherwise it returns the sheet and the
  rectangle with \<open>x1 \<le> x2\<close> and \<open>y1 \<le> y2\<close>, the swapped reference gives the identical
  result, and so does the normalized one: normalizing again changes nothing.
\<close>

theorem adjustRange_corner_order_idempotent:
  assumes "CHR ''!'' \<notin> set sheet" "CHR ''!'' \<notin> set r" "CHR ''!'' \<notin> set r'" "CHR ''!'' \<notin> set r''"
    and "rangeRefToCoordinates f (trimDollar r) = Inr (a, b, c, d)"
    and "rangeRefToCoordinates f (trimDollar r') = Inr (c, d, a, b)"
    and "rangeRefToCoordinates f (trimDollar r'') = Inr (min a c, min b d, max a c, max b d)"
  shows "if a = c \<and> b = d
         then adjustRange f (sheet @ ''!'' @ r) = Inl (sheet, ErrParameterInvalid)
         else adjustRange f (sheet @ ''!'' @ r) = Inr (sheet, min a c, min b d, max a c, max b d)
            \<and> min a c \<le> max a c \<and> min b d \<le> max b d
            \<and> adjustRange f (sheet @ ''!'' @ r') = adjustRange f (sheet @ ''!'' @ r)
            \<and> adjustRange f (sheet @ ''!'' @ r'') = adjustRange f (sheet @ ''!'' @ r)"
proof -
  have 1: "adjustRange f (sheet @ ''!'' @ r) =
           (if a = c \<and> b = d then Inl (sheet, ErrParameterInvalid)
            else Inr (sheet, min a c, min b d, max a c, max b d))"
    using assms(1,2,5) by (rule adjustRange_qualified)
  have 2: "adjustRange f (sheet @ ''!'' @ r') =
           (if c = a \<and> d = b then Inl (sheet, ErrParameterInvalid)
            else Inr (sheet, min c a, min d b, max c a, max d b))"
    using assms(1,3,6) by (rule adjustRange_qualified)
  have 3: "adjustRange f (sheet @ ''!'' @ r'') =
           (if min a c = max a c \<and> min b d = max b d then Inl (sheet, ErrParameterInvalid)
            else Inr (sheet, min (min a c) (max a c), min (min b d) (max b d),
                      max (min a c) (max a c), max (min b d) (max b d)))"
    using assms(1,4,7) by (rule adjustRange_qualified)
  show ?thesis
    unfolding 1 2 3 by (auto simp: min_def max_def)
qed

theorem adjustRange_corner_order_idempotent_witness:
  "adjustRange book ''Sheet1!E31:A1'' = Inr (''Sheet1'', 1, 1, 5, 31)
   \<and> adjustRange book ''Sheet1!A1:E31'' = adjustRange book ''Sheet1!E31:A1''
   \<and> adjustRange book ''Sheet1!$A$1:$E$31'' = adjustRange book ''Sheet1!E31:A1''
   \<and> adjustRange book ''Sheet1!A1:A1'' = Inl (''Sheet1'', ErrParameterInvalid)"
  using adjustRange_corner_order_idempotent
          [of "''Sheet1''" "''E31:A1''" "''A1:E31''" "''$A$1:$E$31''" book 5 31 1 1]
        adjustRange_corner_order_idempotent
          [of "''Sheet1''" "''A1:A1''" "''A1:A1''" "''A1:A1''" book 1 1 1 1]
  by (simp add: book_def demoCoordinates_def trimDollar_def)

subsection \<open>Looking names up\<close>

lemma inStrSliceFrom_absent: "x \<notin> set a \<Longrightarrow> inStrSliceFrom idx a x = - 1"
  by (induction a arbitrary: idx) auto

lemma inStrSliceFrom_present:
  "x \<in> set a \<Longrightarrow> \<exists>k. k < length a \<and> a ! k = x \<and> x \<notin> set (take k a) \<and> inStrSliceFrom idx a x = idx + int k"
proof (induction a arbitrary: idx)
  case Nil
  then show ?case by simp
next
  case (Cons s a)
  show ?case
  proof (cases "x = s")
    case True
    then show ?thesis by (intro exI[of _ 0]) simp
  next
    case False
    with Cons.prems have "x \<in> set a" by simp
    from Cons.IH[OF this, of "idx + 1"] obtain k where
      "k < length a" "a ! k = x" "x \<notin> set (take k a)" "inStrSliceFrom (idx + 1) a x = idx + 1 + int k"
      by blast
    with False show ?thesis by (intro exI[of _ "Suc k"]) simp
  qed
qed

lemma inStrSlice_absent_iff: "inStrSlice a x = - 1 \<longleftrightarrow> x \<notin> set a"
proof
  assume h: "inStrSlice a x = - 1"
  show "x \<notin> set a"
  proof
    assume "x \<in> set a"
    from inStrSliceFrom_present[OF this, of 0] h show False
      by (auto simp: inStrSlice_def)
  qed
next
  assume "x \<notin> set a"
  then show "inStrSlice a x = - 1" by (simp add: inStrSlice_def inStrSliceFrom_absent)
qed

lemma inStrSlice_first:
  "x \<in> set a \<Longrightarrow> \<exists>k. k < length a \<and> a ! k = x \<and> x \<notin> set (take k a) \<and> inStrSlice a x = int k"
  using inStrSliceFrom_present[of x a 0] by (simp add: inStrSlice_def)

lemma fieldsIndex_eq:
  "fieldsIndex orders flds =
     map (\<lambda>fld. inStrSlice orders (fldData fld)) (filter (\<lambda>fld. fldData fld \<in> set orders) flds)"
  by (induction flds) (auto simp: Let_def inStrSlice_absent_iff)

lemma fieldsIndex_all_present:
  "\<forall>fld \<in> set flds. fldData fld \<in> set orders \<Longrightarrow>
     fieldsIndex orders flds = map (\<lambda>fld. inStrSlice orders (fldData fld)) flds"
  by (simp add: fieldsIndex_eq)

lemma inPivotTableFieldFrom_absent: "x \<notin> fldData ` set a \<Longrightarrow> inPivotTableFieldFrom idx a x = - 1"
  by (induction a arbitrary: idx) auto

lemma inPivotTableFieldFrom_present:
  "x \<in> fldData ` set a \<Longrightarrow> 0 \<le> idx \<Longrightarrow> 0 \<le> inPivotTableFieldFrom idx a x"
  by (induction a arbitrary: idx) auto

lemma inPivotTableField_iff: "inPivotTableField a x \<noteq> - 1 \<longleftrightarrow> x \<in> fldData ` set a"
  using inPivotTableFieldFrom_absent[of x a 0] inPivotTableFieldFrom_present[of x a 0]
  by (fastforce simp: inPivotTableField_def)

lemma scanTables_Some:
  "scanTables f opts sheets = Some (err, opts') \<Longrightarrow>
     Rows opts' = Rows opts \<and> Columns opts' = Columns opts \<and> Data opts' = Data opts
     \<and> Filter opts' = Filter opts \<and> Name opts' = Name opts \<and> DataRange opts' = DataRange opts
     \<and> PivotTableRange opts' = PivotTableRange opts
     \<and> pivotTableXML opts' = pivotTableXML opts \<and> pivotCacheXML opts' = pivotCacheXML opts
     \<and> PivotTableStyleName opts' = PivotTableStyleName opts
     \<and> (err = None \<longrightarrow> pivotDataRange opts' \<noteq> [])"
  by (induction sheets) (auto split: prod.splits if_splits option.splits)

lemma getPivotTableDataRange_keeps:
  "getPivotTableDataRange f opts = (err, opts') \<Longrightarrow>
     Rows opts' = Rows opts \<and> Columns opts' = Columns opts \<and> Data opts' = Data opts
     \<and> Filter opts' = Filter opts \<and> Name opts' = Name opts \<and> DataRange opts' = DataRange opts
     \<and> PivotTableRange opts' = PivotTableRange opts
     \<and> pivotTableXML opts' = pivotTableXML opts \<and> pivotCacheXML opts' = pivotCacheXML opts
     \<and> PivotTableStyleName opts' = PivotTableStyleName opts"
  by (auto simp: getPivotTableDataRange_def Let_def split: if_splits option.splits dest: scanTables_Some)

lemma getPivotTableDataRange_ok:
  "getPivotTableDataRange f opts = (None, opts') \<Longrightarrow> pivotDataRange opts' \<noteq> [] \<and> DataRange opts' \<noteq> []"
  by (auto simp: getPivotTableDataRange_def Let_def split: if_splits option.splits dest: scanTables_Some)

lemma getPivotTableDataRange_resolved:
  "pivotDataRange opts \<noteq> [] \<Longrightarrow> DataRange opts \<noteq> [] \<Longrightarrow> getPivotTableDataRange f opts = (None, opts)"
  by (simp add: getPivotTableDataRange_def)

subsection \<open>The field order is read once\<close>

lemma getTableFieldsOrder_ok_dataRange:
  "getTableFieldsOrder f opts = ((order, None), opts') \<Longrightarrow> getPivotTableDataRange f opts = (None, opts')"
  by (auto simp: getTableFieldsOrder_def split: prod.splits option.splits sum.splits)


lemma getTableFieldsOrder_stable:
  assumes "getTableFieldsOrder f opts = ((order, None), opts')"
  shows "getTableFieldsOrder f opts' = ((order, None), opts')"
proof -
  have 1: "getPivotTableDataRange f opts = (None, opts')"
    using assms by (rule getTableFieldsOrder_ok_dataRange)
  then have 2: "getPivotTableDataRange f opts' = (None, opts')"
    using getPivotTableDataRange_ok getPivotTableDataRange_resolved by blast
  show ?thesis using assms by (simp add: getTableFieldsOrder_def 1 2)
qed

lemma getPivotFieldsIndex_stable:
  "getTableFieldsOrder f opts = ((order, None), opts) \<Longrightarrow>
     getPivotFieldsIndex f flds opts = ((fieldsIndex order flds, None), opts)"
  by (simp add: getPivotFieldsIndex_def)

lemma addPivotFields_stable:
  "getTableFieldsOrder f opts = ((order, None), opts) \<Longrightarrow> ptPivotFields pt = Some pfs \<Longrightarrow>
     addPivotFields f pt opts =
       (None, pt\<lparr>ptPivotFields := Some (pfs\<lparr>PivotField := PivotField pfs @ map (pivotFieldFor opts) order\<rparr>)\<rparr>, opts)"
  by (simp add: addPivotFields_def)

lemma addPivotColFields_stable:
  "getTableFieldsOrder f opts = ((order, None), opts) \<Longrightarrow>
     addPivotColFields f pt opts =
       (None,
        pt\<lparr>ptColFields :=
             (if Columns opts = [] \<and> length (Data opts) \<le> 1 then ptColFields pt
              else Some
                \<lparr>colFieldsCount = int (length (fieldsIndex order (Columns opts)
                                      @ (if length (Data opts) > 1 then [- 2] else []))),
                 colField = fieldsIndex order (Columns opts)
                              @ (if length (Data opts) > 1 then [- 2] else [])\<rparr>)\<rparr>,
        opts)"
  by (simp add: addPivotColFields_def getPivotFieldsIndex_stable)

lemma addPivotRowFields_stable:
  "getTableFieldsOrder f opts = ((order, None), opts) \<Longrightarrow> ptRowFields pt = None \<Longrightarrow>
     addPivotRowFields f pt opts =
       (None,
        pt\<lparr>ptRowFields :=
             (if fieldsIndex order (Rows opts) = [] then None
              else Some \<lparr>rowFieldsCount = int (length (fieldsIndex order (Rows opts))),
                         rowField = fieldsIndex order (Rows opts)\<rparr>)\<rparr>,
        opts)"
  by (simp add: addPivotRowFields_def getPivotFieldsIndex_stable)

lemma addPivotPageFields_stable:
  "getTableFieldsOrder f opts = ((order, None), opts) \<Longrightarrow> ptPageFields pt = None \<Longrightarrow>
     addPivotPageFields f pt opts =
       (None,
        pt\<lparr>ptPageFields :=
             (if fieldsIndex order (Filter opts) = [] then None
              else Some \<lparr>pageFieldsCount =
                           int (length (zip (fieldsIndex order (Filter opts))
                                          (getPivotTableFieldsName (Filter opts)))),
                         PageField = map (\<lambda>(pageField, name). \<lparr>pgName = name, pgFld = pageField\<rparr>)
                                       (zip (fieldsIndex order (Filter opts))
                                          (getPivotTableFieldsName (Filter opts)))\<rparr>)\<rparr>,
        opts)"
  by (simp add: addPivotPageFields_def getPivotFieldsIndex_stable Let_def)

lemma addPivotDataFields_stable:
  "getTableFieldsOrder f opts = ((order, None), opts) \<Longrightarrow> ptDataFields pt = None \<Longrightarrow>
     addPivotDataFields f pt opts =
       (None,
        pt\<lparr>ptDataFields :=
             (if fieldsIndex order (Data opts) = [] then None
              else Some \<lparr>dataFieldsCount =
                           int (length (zip (fieldsIndex order (Data opts))
                                          (zip (getPivotTableFieldsName (Data opts))
                                             (getPivotTableFieldsSubtotal (Data opts))))),
                         DataField = map (\<lambda>(dataField, name, subtotal).
                                            \<lparr>dfName = name, dfFld = dataField, dfSubtotal = subtotal\<rparr>)
                                       (zip (fieldsIndex order (Data opts))
                                          (zip (getPivotTableFieldsName (Data opts))
                                             (getPivotTableFieldsSubtotal (Data opts))))\<rparr>)\<rparr>,
        opts)"
  by (simp add: addPivotDataFields_def getPivotFieldsIndex_stable Let_def)

lemma addPivotTable_stable:
  assumes H: "getTableFieldsOrder f opts = ((order, None), opts)"
    and R: "adjustRange f (PivotTableRange opts) = Inr (s, x1, y1, x2, y2)"
  shows "\<exists>pt. addPivotTable f cacheID ptID opts =
                 (None, saveFileList f (pivotTableXML opts) (PivotTablePart pt), opts)
            \<and> ptName pt = (if Name opts = [] then ''PivotTable'' @ Itoa ptID else Name opts)
            \<and> ptCacheID pt = cacheID
            \<and> ptPivotFields pt =
                Some \<lparr>pivotFieldsCount = int (length order), PivotField = map (pivotFieldFor opts) order\<rparr>
            \<and> ptColFields pt = colFieldsFor order opts
            \<and> ptRowFields pt =
                (if fieldsIndex order (Rows opts) = [] then None
                 else Some \<lparr>rowFieldsCount = int (length (fieldsIndex order (Rows opts))),
                            rowField = fieldsIndex order (Rows opts)\<rparr>)
            \<and> ptDataFields pt = dataFieldsFor order opts"
proof -
  obtain pt where pt: "snd (addPivotTable f cacheID ptID opts) =
      (saveFileList f (pivotTableXML opts) (PivotTablePart pt), opts)"
    and e: "fst (addPivotTable f cacheID ptID opts) = None"
    and n: "ptName pt = (if Name opts = [] then ''PivotTable'' @ Itoa ptID else Name opts)"
    and c: "ptCacheID pt = cacheID"
    and pf: "ptPivotFields pt =
                Some \<lparr>pivotFieldsCount = int (length order), PivotField = map (pivotFieldFor opts) order\<rparr>"
    and cf: "ptColFields pt = colFieldsFor order opts"
    and rf: "ptRowFields pt =
                (if fieldsIndex order (Rows opts) = [] then None
                 else Some \<lparr>rowFieldsCount = int (length (fieldsIndex order (Rows opts))),
                            rowField = fieldsIndex order (Rows opts)\<rparr>)"
    and df: "ptDataFields pt = dataFieldsFor order opts"
    by (cases "Name opts = []")
       (simp_all add: addPivotTable_def Let_def R addPivotFields_stable[OF H] addPivotRowFields_stable[OF H]
          addPivotColFields_stable[OF H] addPivotPageFields_stable[OF H] addPivotDataFields_stable[OF H]
          colFieldsFor_def dataFieldsFor_def split del: if_split cong: if_cong)
  then show ?thesis by (intro exI[of _ pt]) (simp add: prod_eq_iff)
qed

subsection \<open>Adding parts does not change what the sheets hold\<close>

lemma sameSheets_refl: "sameSheets f f"
  by (simp add: sameSheets_def)

lemma sameSheets_trans [trans]: "sameSheets f g \<Longrightarrow> sameSheets g h \<Longrightarrow> sameSheets f h"
  by (simp add: sameSheets_def)

lemma sameSheets_saveFileList: "sameSheets f (saveFileList f path content)"
  by (simp add: sameSheets_def saveFileList_def)

lemma sameSheets_addRels: "sameSheets f (snd (addRels f relPath rType target))"
  by (simp add: sameSheets_def addRels_def Let_def)

lemma sameSheets_addWorkbookPivotCache: "sameSheets f (snd (addWorkbookPivotCache f rID))"
  by (simp add: sameSheets_def addWorkbookPivotCache_def Let_def)

lemma sameSheets_addContentTypePart: "sameSheets f (snd (addContentTypePart f index contentType))"
  by (simp add: sameSheets_def addContentTypePart_def)

lemma adjustRange_sameSheets: "sameSheets f g \<Longrightarrow> adjustRange g r = adjustRange f r"
  by (simp add: adjustRange_def sameSheets_def cong: list.case_cong sum.case_cong)

lemma scanTables_sameSheets:
  assumes "sameSheets f g"
  shows "scanTables g opts sheets = scanTables f opts sheets"
proof -
  have "GetTables g = GetTables f" using assms by (simp add: sameSheets_def)
  then show ?thesis
    by (induction sheets) (simp_all split: prod.splits option.splits)
qed

lemma getPivotTableDataRange_sameSheets:
  assumes "sameSheets f g"
  shows "getPivotTableDataRange g opts = getPivotTableDataRange f opts"
proof -
  have "GetSheetList g = GetSheetList f" "getDefinedNameRefTo g = getDefinedNameRefTo f"
    using assms by (simp_all add: sameSheets_def)
  then show ?thesis
    unfolding getPivotTableDataRange_def scanTables_sameSheets[OF assms]
    by (simp split: option.splits)
qed

lemma readHeader_sameSheets:
  assumes "sameSheets f g"
  shows "readHeader g sheet row cols = readHeader f sheet row cols"
proof -
  have "GetCellValue g = GetCellValue f" "CoordinatesToCellName g = CoordinatesToCellName f"
    using assms by (simp_all add: sameSheets_def)
  then show ?thesis
    by (induction cols) (simp_all split: sum.splits prod.splits)
qed

lemma getTableFieldsOrder_sameSheets:
  "sameSheets f g \<Longrightarrow> getTableFieldsOrder g opts = getTableFieldsOrder f opts"
  unfolding getTableFieldsOrder_def
  by (simp add: getPivotTableDataRange_sameSheets adjustRange_sameSheets readHeader_sameSheets
      cong: prod.case_cong option.case_cong sum.case_cong)

subsection \<open>What a call of AddPivotTable emits\<close>

lemma parseFormat_Inr_iff:
  "parseFormatPivotTableSet f optsp = Inr (path, opts0) \<longleftrightarrow>
     (\<exists>opts s c ds dc. optsp = Some opts
        \<and> adjustRange f (PivotTableRange opts) = Inr (s, c)
        \<and> length (Name opts) \<le> MaxFieldLength
        \<and> getPivotTableDataRange f (opts\<lparr>pivotSheetName := s\<rparr>) = (None, opts0)
        \<and> adjustRange f (pivotDataRange opts0) = Inr (ds, dc)
        \<and> workSheetReader f ds = None
        \<and> getSheetXMLPath f s = Some path)"
  unfolding parseFormatPivotTableSet_def
  by (auto split: option.splits sum.splits prod.splits if_splits)

lemma getTableFieldsOrder_resolved:
  assumes "pivotDataRange opts \<noteq> []" "DataRange opts \<noteq> []"
    and "adjustRange f (pivotDataRange opts) = Inr (ds, x1, y1, x2, y2)"
  shows "getTableFieldsOrder f opts = (readHeader f ds y1 [x1..x2], opts)"
  using assms by (simp add: getTableFieldsOrder_def getPivotTableDataRange_resolved)

lemma addPivotCache_stable:
  assumes H: "getTableFieldsOrder f opts = ((order, None), opts)"
    and R: "adjustRange f (pivotDataRange opts) = Inr (ds, x1, y1, x2, y2)"
  shows "\<exists>pc. addPivotCache f opts = (None, saveFileList f (pivotCacheXML opts) (PivotCachePart pc), opts)
           \<and> CacheFields pc =
               Some \<lparr>cacheFieldsCount = int (length order),
                     CacheField = map (\<lambda>name. \<lparr>cfName = name,
                                    SharedItems = Some \<lparr>ContainsBlank = True, M = 1\<rparr>\<rparr>) order\<rparr>
           \<and> CacheSource pc = Some \<lparr>csType = ''worksheet'', WorksheetSource = Some
                (if namedDataRange opts then \<lparr>wsRef = [], wsSheet = [], wsName = DataRange opts\<rparr>
                 else \<lparr>wsRef = CoordinatesToCellName f x1 y1 @ '':'' @ CoordinatesToCellName f x2 y2,
                       wsSheet = ds, wsName = []\<rparr>)\<rparr>"
  apply (simp add: addPivotCache_def H R Let_def split del: if_split)
  apply (rule exI, rule conjI, rule refl)
  apply simp
  done

lemma addPivotCache_fails:
  assumes H: "getTableFieldsOrder f opts = ((order, Some err), opts')"
    and R: "adjustRange f (pivotDataRange opts) = Inr (ds, x1, y1, x2, y2)"
  shows "addPivotCache f opts = (Some (PivotTableDataRangeError err), f, opts')"
  by (simp add: addPivotCache_def H R)

lemma Pkg_addRels: "Pkg (snd (addRels f relPath rType target)) = Pkg f"
  by (simp add: addRels_def Let_def)

lemma Pkg_addWorkbookPivotCache: "Pkg (snd (addWorkbookPivotCache f rID)) = Pkg f"
  by (simp add: addWorkbookPivotCache_def Let_def)

lemma Pkg_addContentTypePart: "Pkg (snd (addContentTypePart f index contentType)) = Pkg f"
  by (simp add: addContentTypePart_def)

lemma fst_addContentTypePart: "fst (addContentTypePart f index contentType) = None"
  by (simp add: addContentTypePart_def)

lemma map_of_saveFileList:
  "map_of (Pkg (saveFileList f path content)) = (map_of (Pkg f))(path \<mapsto> content)"
  by (simp add: saveFileList_def update_conv')

lemma pivotFieldFor_cong:
  "Rows a = Rows b \<Longrightarrow> Columns a = Columns b \<Longrightarrow> Data a = Data b \<Longrightarrow> Filter a = Filter b \<Longrightarrow>
     pivotFieldFor a = pivotFieldFor b"
  by (rule ext) (simp add: pivotFieldFor_def)

lemma tablePath_neq_cachePath: "tablePath f \<noteq> cachePath f"
  by (simp add: tablePath_def cachePath_def)

lemma AddPivotTable_ok:
  assumes P: "parseFormatPivotTableSet f (Some opts) = Inr (path, opts0)"
    and R: "adjustRange f (pivotDataRange opts0) = Inr (ds, x1, y1, x2, y2)"
    and O: "readHeader f ds y1 [x1..x2] = (order, None)"
  shows "\<exists>f' pt pc. AddPivotTable f (Some opts) = (None, f')
           \<and> map_of (Pkg f') (tablePath f) = Some (PivotTablePart pt)
           \<and> map_of (Pkg f') (cachePath f) = Some (PivotCachePart pc)
           \<and> ptName pt = (if Name opts = [] then ''PivotTable'' @ Itoa (countPivotTables f + 1)
                           else Name opts)
           \<and> ptPivotFields pt =
                Some \<lparr>pivotFieldsCount = int (length order), PivotField = map (pivotFieldFor opts) order\<rparr>
           \<and> ptColFields pt = colFieldsFor order opts
           \<and> ptDataFields pt = dataFieldsFor order opts
           \<and> CacheFields pc =
               Some \<lparr>cacheFieldsCount = int (length order),
                     CacheField = map (\<lambda>name. \<lparr>cfName = name,
                                    SharedItems = Some \<lparr>ContainsBlank = True, M = 1\<rparr>\<rparr>) order\<rparr>"
proof -
  from P obtain s c where
    PR: "adjustRange f (PivotTableRange opts) = Inr (s, c)"
    and DR: "getPivotTableDataRange f (opts\<lparr>pivotSheetName := s\<rparr>) = (None, opts0)"
    by (auto simp: parseFormat_Inr_iff)
  obtain a b a' b' where c: "c = (a, b, a', b')" by (cases c) auto
  have res: "pivotDataRange opts0 \<noteq> []" "DataRange opts0 \<noteq> []"
    using getPivotTableDataRange_ok[OF DR] by simp_all
  have keep: "Rows opts0 = Rows opts" "Columns opts0 = Columns opts" "Data opts0 = Data opts"
    "Filter opts0 = Filter opts" "Name opts0 = Name opts" "PivotTableRange opts0 = PivotTableRange opts"
    using getPivotTableDataRange_keeps[OF DR] by simp_all
  define opts1 where "opts1 = opts0\<lparr>pivotTableXML := tablePath f, pivotCacheXML := cachePath f\<rparr>"
  have o1: "pivotDataRange opts1 = pivotDataRange opts0" "DataRange opts1 = DataRange opts0"
    "Rows opts1 = Rows opts" "Columns opts1 = Columns opts" "Data opts1 = Data opts"
    "Filter opts1 = Filter opts" "Name opts1 = Name opts" "PivotTableRange opts1 = PivotTableRange opts"
    "pivotTableXML opts1 = tablePath f" "pivotCacheXML opts1 = cachePath f"
    by (simp_all add: opts1_def keep)
  have H1: "getTableFieldsOrder f opts1 = ((order, None), opts1)"
    using getTableFieldsOrder_resolved[of opts1 f ds x1 y1 x2 y2] res R O by (simp add: o1)
  have R1: "adjustRange f (pivotDataRange opts1) = Inr (ds, x1, y1, x2, y2)"
    using R by (simp add: o1)
  from addPivotCache_stable[OF H1 R1] obtain pc where
    C0: "addPivotCache f opts1 = (None, saveFileList f (pivotCacheXML opts1) (PivotCachePart pc), opts1)"
    and pc: "CacheFields pc =
               Some \<lparr>cacheFieldsCount = int (length order),
                     CacheField = map (\<lambda>name. \<lparr>cfName = name,
                                    SharedItems = Some \<lparr>ContainsBlank = True, M = 1\<rparr>\<rparr>) order\<rparr>"
    by blast
  have C: "addPivotCache f opts1 = (None, saveFileList f (cachePath f) (PivotCachePart pc), opts1)"
    using C0 by (simp add: o1)
  define f1 where "f1 = saveFileList f (cachePath f) (PivotCachePart pc)"
  define r2 where "r2 = addRels f1 (getWorkbookRelsPath f1) SourceRelationshipPivotCache
                          (TrimPrefix (cachePath f) ''xl/'')"
  define r3 where "r3 = addWorkbookPivotCache (snd r2) (fst r2)"
  define f4 where "f4 = snd (addRels (snd r3)
      (''xl/pivotTables/_rels/pivotTable'' @ Itoa (countPivotTables f + 1) @ ''.xml.rels'')
      SourceRelationshipPivotCache
      (''../pivotCache/pivotCacheDefinition'' @ Itoa (countPivotCache f + 1) @ ''.xml''))"
  have s4: "sameSheets f f4"
  proof -
    have "sameSheets f f1" unfolding f1_def by (rule sameSheets_saveFileList)
    also have "sameSheets f1 (snd r2)" unfolding r2_def by (rule sameSheets_addRels)
    also have "sameSheets (snd r2) (snd r3)" unfolding r3_def by (rule sameSheets_addWorkbookPivotCache)
    also have "sameSheets (snd r3) f4" unfolding f4_def by (rule sameSheets_addRels)
    finally show ?thesis .
  qed
  have P4: "Pkg f4 = Pkg f1"
    unfolding f4_def r3_def r2_def by (simp add: Pkg_addRels Pkg_addWorkbookPivotCache)
  have H4: "getTableFieldsOrder f4 opts1 = ((order, None), opts1)"
    using H1 by (simp add: getTableFieldsOrder_sameSheets[OF s4])
  have R4: "adjustRange f4 (PivotTableRange opts1) = Inr (s, a, b, a', b')"
    using PR by (simp add: adjustRange_sameSheets[OF s4] o1 c)
  from addPivotTable_stable[OF H4 R4, of "fst r3" "countPivotTables f + 1"] obtain pt where
    T0: "addPivotTable f4 (fst r3) (countPivotTables f + 1) opts1 =
          (None, saveFileList f4 (pivotTableXML opts1) (PivotTablePart pt), opts1)"
    and pt0: "ptName pt = (if Name opts1 = [] then ''PivotTable'' @ Itoa (countPivotTables f + 1)
                           else Name opts1)"
      "ptPivotFields pt =
         Some \<lparr>pivotFieldsCount = int (length order), PivotField = map (pivotFieldFor opts1) order\<rparr>"
      "ptColFields pt = colFieldsFor order opts1"
      "ptDataFields pt = dataFieldsFor order opts1"
    by blast
  have T: "addPivotTable f4 (fst r3) (countPivotTables f + 1) opts1 =
          (None, saveFileList f4 (tablePath f) (PivotTablePart pt), opts1)"
    using T0 by (simp add: o1)
  have pt: "ptName pt = (if Name opts = [] then ''PivotTable'' @ Itoa (countPivotTables f + 1)
                           else Name opts)"
    using pt0(1) by (simp add: o1)
  have pf: "pivotFieldFor opts1 = pivotFieldFor opts"
    by (rule pivotFieldFor_cong) (simp_all add: o1)
  have cf: "colFieldsFor order opts1 = colFieldsFor order opts"
    "dataFieldsFor order opts1 = dataFieldsFor order opts"
    by (simp_all add: colFieldsFor_def dataFieldsFor_def o1)
  define f5 where "f5 = saveFileList f4 (tablePath f) (PivotTablePart pt)"
  define f6 where "f6 = snd (addRels f5
      (''xl/worksheets/_rels/'' @ TrimPrefix path ''xl/worksheets/'' @ ''.rels'')
      SourceRelationshipPivotTable
      (''../pivotTables/pivotTable'' @ Itoa (countPivotTables f + 1) @ ''.xml''))"
  define f7 where "f7 = snd (addContentTypePart f6 (countPivotTables f + 1) ''pivotTable'')"
  define f' where "f' = snd (addContentTypePart f7 (countPivotCache f + 1) ''pivotCache'')"
  have A: "AddPivotTable f (Some opts) = (None, f')"
    unfolding AddPivotTable_def P
    apply (simp only: sum.case prod.case Let_def)
    apply (fold tablePath_def cachePath_def)
    apply (fold opts1_def)
    apply (simp only: C prod.case option.case o1)
    apply (fold f1_def)
    apply (simp only: case_prod_beta)
    apply (fold r2_def)
    apply (fold r3_def)
    apply (fold f4_def)
    apply (simp only: T prod.case option.case fst_conv snd_conv)
    apply (fold f5_def)
    apply (fold f6_def)
    apply (simp add: addContentTypePart_def f'_def f7_def)
    done
  have Pk: "map_of (Pkg f') = (map_of (Pkg f))(cachePath f \<mapsto> PivotCachePart pc,
                                               tablePath f \<mapsto> PivotTablePart pt)"
    unfolding f'_def f7_def f6_def f5_def
    by (simp add: Pkg_addContentTypePart Pkg_addRels map_of_saveFileList P4 f1_def)
  show ?thesis
    apply (rule exI[of _ f'], rule exI[of _ pt], rule exI[of _ pc])
    using tablePath_neq_cachePath[of f] by (simp add: A Pk pt pt0 pc pf cf)
qed

subsection \<open>Failure and success of a call\<close>

lemma AddPivotTable_parse_fails:
  "parseFormatPivotTableSet f optsp = Inl err \<Longrightarrow> AddPivotTable f optsp = (Some err, f)"
  by (simp add: AddPivotTable_def)

lemma AddPivotTable_header_fails:
  assumes P: "parseFormatPivotTableSet f (Some opts) = Inr (path, opts0)"
    and R: "adjustRange f (pivotDataRange opts0) = Inr (ds, x1, y1, x2, y2)"
    and O: "readHeader f ds y1 [x1..x2] = (order, Some err)"
  shows "AddPivotTable f (Some opts) = (Some (PivotTableDataRangeError err), f)"
proof -
  from P obtain s c where
    DR: "getPivotTableDataRange f (opts\<lparr>pivotSheetName := s\<rparr>) = (None, opts0)"
    by (auto simp: parseFormat_Inr_iff)
  have res: "pivotDataRange opts0 \<noteq> []" "DataRange opts0 \<noteq> []"
    using getPivotTableDataRange_ok[OF DR] by simp_all
  define opts1 where "opts1 = opts0\<lparr>pivotTableXML := tablePath f, pivotCacheXML := cachePath f\<rparr>"
  have o1: "pivotDataRange opts1 = pivotDataRange opts0" "DataRange opts1 = DataRange opts0"
    by (simp_all add: opts1_def)
  have H1: "getTableFieldsOrder f opts1 = ((order, Some err), opts1)"
    using getTableFieldsOrder_resolved[of opts1 f ds x1 y1 x2 y2] res R O by (simp add: o1)
  have R1: "adjustRange f (pivotDataRange opts1) = Inr (ds, x1, y1, x2, y2)"
    using R by (simp add: o1)
  have C: "addPivotCache f opts1 = (Some (PivotTableDataRangeError err), f, opts1)"
    using addPivotCache_fails[OF H1 R1] .
  show ?thesis
    unfolding AddPivotTable_def P
    apply (simp only: sum.case prod.case Let_def)
    apply (fold tablePath_def cachePath_def)
    apply (fold opts1_def)
    apply (simp only: C prod.case option.case)
    done
qed

text \<open>The validations of a call, with the names they give to the sheet and the rectangle.\<close>

lemma parseFormat_from_checks:
  assumes "adjustRange f (PivotTableRange opts) = Inr (sheet, c)"
    and "length (Name opts) \<le> MaxFieldLength"
    and "getPivotTableDataRange f (opts\<lparr>pivotSheetName := sheet\<rparr>) = (None, opts0)"
    and "adjustRange f (pivotDataRange opts0) = Inr (ds, dc)"
    and "workSheetReader f ds = None"
    and "getSheetXMLPath f sheet = Some path"
  shows "parseFormatPivotTableSet f (Some opts) = Inr (path, opts0)"
  using assms unfolding parseFormat_Inr_iff by blast

lemma readHeader_of_order:
  assumes G: "fst (getTableFieldsOrder f opts) = r"
    and DR: "getPivotTableDataRange f opts = (None, opts0)"
    and R: "adjustRange f (pivotDataRange opts0) = Inr (ds, x1, y1, x2, y2)"
  shows "readHeader f ds y1 [x1..x2] = r"
  using G by (simp add: getTableFieldsOrder_def DR R)

lemma AddPivotTable_emits:
  assumes S: "AddPivotTable f (Some opts) = (None, f')"
    and PR: "adjustRange f (PivotTableRange opts) = Inr (sheet, c)"
    and G: "fst (getTableFieldsOrder f (opts\<lparr>pivotSheetName := sheet\<rparr>)) = (order, None)"
  shows "\<exists>pt pc. map_of (Pkg f') (tablePath f) = Some (PivotTablePart pt)
           \<and> map_of (Pkg f') (cachePath f) = Some (PivotCachePart pc)
           \<and> ptName pt = (if Name opts = [] then ''PivotTable'' @ Itoa (countPivotTables f + 1)
                           else Name opts)
           \<and> ptPivotFields pt =
                Some \<lparr>pivotFieldsCount = int (length order), PivotField = map (pivotFieldFor opts) order\<rparr>
           \<and> ptColFields pt = colFieldsFor order opts
           \<and> ptDataFields pt = dataFieldsFor order opts
           \<and> CacheFields pc =
               Some \<lparr>cacheFieldsCount = int (length order),
                     CacheField = map (\<lambda>name. \<lparr>cfName = name,
                                    SharedItems = Some \<lparr>ContainsBlank = True, M = 1\<rparr>\<rparr>) order\<rparr>"
proof -
  obtain path opts0 where P: "parseFormatPivotTableSet f (Some opts) = Inr (path, opts0)"
  proof (cases "parseFormatPivotTableSet f (Some opts)")
    case (Inl err)
    from AddPivotTable_parse_fails[OF this] S show ?thesis by simp
  next
    case (Inr r)
    then show ?thesis using that by (cases r) auto
  qed
  from P PR obtain ds dc where
    DR: "getPivotTableDataRange f (opts\<lparr>pivotSheetName := sheet\<rparr>) = (None, opts0)"
    and R0: "adjustRange f (pivotDataRange opts0) = Inr (ds, dc)"
    by (auto simp: parseFormat_Inr_iff)
  obtain x1 y1 x2 y2 where dc: "dc = (x1, y1, x2, y2)" by (cases dc) auto
  have R: "adjustRange f (pivotDataRange opts0) = Inr (ds, x1, y1, x2, y2)"
    using R0 dc by simp
  have O: "readHeader f ds y1 [x1..x2] = (order, None)"
    using readHeader_of_order[OF G DR R] .
  from AddPivotTable_ok[OF P R O] S show ?thesis by auto
qed


subsection \<open>The column fields\<close>

text \<open>
  Claim C1. Take a call of \<open>AddPivotTable\<close> that succeeds, with \<open>order\<close> the header row of its
  data range. With no entry in \<open>Columns\<close>, the emitted table definition has no column-field
  list when \<open>Data\<close> has at most one entry, and the list is the single entry \<open>-2\<close> when \<open>Data\<close>
  has two or more. With entries in \<open>Columns\<close>, the list holds the indices of the columns, in
  the order given, and \<open>-2\<close> comes after them exactly when \<open>Data\<close> has two or more entries.
\<close>

theorem colFields_synthesis:
  assumes "AddPivotTable f (Some opts) = (None, f')"
    and "adjustRange f (PivotTableRange opts) = Inr (sheet, c)"
    and "fst (getTableFieldsOrder f (opts\<lparr>pivotSheetName := sheet\<rparr>)) = (order, None)"
  shows "\<exists>pt. map_of (Pkg f') (tablePath f) = Some (PivotTablePart pt)
           \<and> (Columns opts = [] \<and> length (Data opts) \<le> 1 \<longrightarrow> ptColFields pt = None)
           \<and> (Columns opts = [] \<and> 2 \<le> length (Data opts) \<longrightarrow>
                 ptColFields pt = Some \<lparr>colFieldsCount = 1, colField = [- 2]\<rparr>)
           \<and> (Columns opts \<noteq> [] \<longrightarrow>
                 (\<exists>cols. ptColFields pt = Some cols
                    \<and> colField cols =
                        map (\<lambda>column. inStrSlice order (fldData column))
                          (filter (\<lambda>column. fldData column \<in> set order) (Columns opts))
                        @ (if 2 \<le> length (Data opts) then [- 2] else [])
                    \<and> colFieldsCount cols = int (length (colField cols))))"
proof -
  from AddPivotTable_emits[OF assms] obtain pt where
    1: "map_of (Pkg f') (tablePath f) = Some (PivotTablePart pt)"
    and 2: "ptColFields pt = colFieldsFor order opts"
    by blast
  show ?thesis
    by (rule exI[of _ pt]) (auto simp: 1 2 colFieldsFor_def fieldsIndex_eq)
qed


subsection \<open>The pivot fields and the table name\<close>

lemma AddPivotTable_succeeds:
  assumes PR: "adjustRange f (PivotTableRange opts) = Inr (sheet, c)"
    and L: "length (Name opts) \<le> MaxFieldLength"
    and G: "getTableFieldsOrder f (opts\<lparr>pivotSheetName := sheet\<rparr>) = ((order, None), opts0)"
    and R: "adjustRange f (pivotDataRange opts0) = Inr (ds, dc)"
    and W: "workSheetReader f ds = None"
    and X: "getSheetXMLPath f sheet = Some path"
  shows "\<exists>f'. AddPivotTable f (Some opts) = (None, f')"
proof -
  have DR: "getPivotTableDataRange f (opts\<lparr>pivotSheetName := sheet\<rparr>) = (None, opts0)"
    using G by (rule getTableFieldsOrder_ok_dataRange)
  have P: "parseFormatPivotTableSet f (Some opts) = Inr (path, opts0)"
    using PR L DR R W X by (rule parseFormat_from_checks)
  obtain x1 y1 x2 y2 where dc: "dc = (x1, y1, x2, y2)" by (cases dc) auto
  have R': "adjustRange f (pivotDataRange opts0) = Inr (ds, x1, y1, x2, y2)"
    using R dc by simp
  have O: "readHeader f ds y1 [x1..x2] = (order, None)"
    using readHeader_of_order[OF _ DR R', of "(order, None)"] G by simp
  from AddPivotTable_ok[OF P R' O] show ?thesis by blast
qed

lemma pivotFieldFor_axis:
  "(if name \<in> fldData ` set (Rows opts) then pfAxis (pivotFieldFor opts name) = ''axisRow''
    else if name \<in> fldData ` set (Filter opts) then pfAxis (pivotFieldFor opts name) = ''axisPage''
    else if name \<in> fldData ` set (Columns opts) then pfAxis (pivotFieldFor opts name) = ''axisCol''
    else if name \<in> fldData ` set (Data opts)
      then pfAxis (pivotFieldFor opts name) = [] \<and> pfDataField (pivotFieldFor opts name)
    else pivotFieldFor opts name =
           \<lparr>pfName = [], pfAxis = [], pfDataField = False, pfCompact = None, pfOutline = None,
            pfDefaultSubtotal = None, pfItems = None\<rparr>)"
  by (simp add: pivotFieldFor_def inPivotTableField_iff Let_def split: prod.splits)

text \<open>
  Claim C4. A call that succeeds emits one pivot field for each name of the header row, so
  as many as the header row has names, and the axis of each is that of the first of
  \<open>Rows\<close>, \<open>Filter\<close>, \<open>Columns\<close>, \<open>Data\<close> that mentions the name; a name in none of them gets
  the empty field.
\<close>

theorem axis_first_match:
  assumes "AddPivotTable f (Some opts) = (None, f')"
    and "adjustRange f (PivotTableRange opts) = Inr (sheet, c)"
    and "fst (getTableFieldsOrder f (opts\<lparr>pivotSheetName := sheet\<rparr>)) = (order, None)"
  shows "\<exists>pt pfs. map_of (Pkg f') (tablePath f) = Some (PivotTablePart pt)
           \<and> ptPivotFields pt = Some pfs
           \<and> length (PivotField pfs) = length order
           \<and> pivotFieldsCount pfs = int (length order)
           \<and> (\<forall>i < length order.
                 if order ! i \<in> fldData ` set (Rows opts)
                   then pfAxis (PivotField pfs ! i) = ''axisRow''
                 else if order ! i \<in> fldData ` set (Filter opts)
                   then pfAxis (PivotField pfs ! i) = ''axisPage''
                 else if order ! i \<in> fldData ` set (Columns opts)
                   then pfAxis (PivotField pfs ! i) = ''axisCol''
                 else if order ! i \<in> fldData ` set (Data opts)
                   then pfAxis (PivotField pfs ! i) = [] \<and> pfDataField (PivotField pfs ! i)
                 else PivotField pfs ! i =
                        \<lparr>pfName = [], pfAxis = [], pfDataField = False, pfCompact = None,
                         pfOutline = None, pfDefaultSubtotal = None, pfItems = None\<rparr>)"
proof -
  from AddPivotTable_emits[OF assms] obtain pt where
    1: "map_of (Pkg f') (tablePath f) = Some (PivotTablePart pt)"
    and 2: "ptPivotFields pt =
              Some \<lparr>pivotFieldsCount = int (length order), PivotField = map (pivotFieldFor opts) order\<rparr>"
    by blast
  let ?pfs = "\<lparr>pivotFieldsCount = int (length order), PivotField = map (pivotFieldFor opts) order\<rparr>"
  have 3: "\<forall>i < length order.
                 if order ! i \<in> fldData ` set (Rows opts)
                   then pfAxis (PivotField ?pfs ! i) = ''axisRow''
                 else if order ! i \<in> fldData ` set (Filter opts)
                   then pfAxis (PivotField ?pfs ! i) = ''axisPage''
                 else if order ! i \<in> fldData ` set (Columns opts)
                   then pfAxis (PivotField ?pfs ! i) = ''axisCol''
                 else if order ! i \<in> fldData ` set (Data opts)
                   then pfAxis (PivotField ?pfs ! i) = [] \<and> pfDataField (PivotField ?pfs ! i)
                 else PivotField ?pfs ! i =
                        \<lparr>pfName = [], pfAxis = [], pfDataField = False, pfCompact = None,
                         pfOutline = None, pfDefaultSubtotal = None, pfItems = None\<rparr>"
  proof (intro allI impI)
    fix i assume "i < length order"
    then have "PivotField ?pfs ! i = pivotFieldFor opts (order ! i)" by simp
    then show "if order ! i \<in> fldData ` set (Rows opts)
                   then pfAxis (PivotField ?pfs ! i) = ''axisRow''
                 else if order ! i \<in> fldData ` set (Filter opts)
                   then pfAxis (PivotField ?pfs ! i) = ''axisPage''
                 else if order ! i \<in> fldData ` set (Columns opts)
                   then pfAxis (PivotField ?pfs ! i) = ''axisCol''
                 else if order ! i \<in> fldData ` set (Data opts)
                   then pfAxis (PivotField ?pfs ! i) = [] \<and> pfDataField (PivotField ?pfs ! i)
                 else PivotField ?pfs ! i =
                        \<lparr>pfName = [], pfAxis = [], pfDataField = False, pfCompact = None,
                         pfOutline = None, pfDefaultSubtotal = None, pfItems = None\<rparr>"
      using pivotFieldFor_axis[of "order ! i" opts] by (simp only:)
  qed
  have 4: "length (PivotField ?pfs) = length order" "pivotFieldsCount ?pfs = int (length order)"
    by simp_all
  from 1 2 3 4 show ?thesis by blast
qed

lemma fieldNameLoop_absent:
  "name \<notin> fldData ` fst ` set ps \<Longrightarrow> fieldNameLoop name ps = []"
  by (induction ps) auto

lemma getPivotTableFieldName_absent:
  "name \<notin> fldData ` set flds \<Longrightarrow> getPivotTableFieldName name flds = []"
proof -
  assume a: "name \<notin> fldData ` set flds"
  have "fst ` set (zip flds (getPivotTableFieldsName flds)) \<subseteq> set flds"
    by (auto dest: set_zip_leftD)
  with a have "name \<notin> fldData ` fst ` set (zip flds (getPivotTableFieldsName flds))"
    by blast
  then show ?thesis
    unfolding getPivotTableFieldName_def by (rule fieldNameLoop_absent)
qed

subsection \<open>Counting the table parts\<close>

lemma Contains_sublist: "Contains s sub = sublist sub s"
  by (induction s) (simp_all add: sublist_Cons_right)

lemma countPivotTables_card:
  "countPivotTables f
     = int (card {k \<in> fst ` set (Pkg f). sublist ''xl/pivotTables/pivotTable'' k})"
proof -
  let ?P = "\<lambda>k. Contains k ''xl/pivotTables/pivotTable''"
  have "card (set (filter ?P (remdups (map fst (Pkg f)))))
          = length (filter ?P (remdups (map fst (Pkg f))))"
    by (rule distinct_card) simp
  moreover have "set (filter ?P (remdups (map fst (Pkg f)))) = {k \<in> fst ` set (Pkg f). ?P k}"
    by auto
  ultimately show ?thesis by (simp add: countPivotTables_def Contains_sublist)
qed

lemma digitChar_not_dot: "d < 10 \<Longrightarrow> digitChar d \<noteq> CHR ''.''"
proof
  assume d: "d < 10" and e: "digitChar d = CHR ''.''"
  from e have "of_char (digitChar d) = (of_char (CHR ''.'') :: nat)" by simp
  then show False using d by (simp add: digitChar_def)
qed

lemma natDigits_no_dot: "CHR ''.'' \<notin> set (natDigits n)"
proof (induction n rule: natDigits.induct)
  case (1 n)
  show ?case
  proof (cases "n < 10")
    case True
    then show ?thesis using digitChar_not_dot[of n] by (subst natDigits.simps) auto
  next
    case False
    have "n mod 10 < 10" by simp
    from digitChar_not_dot[OF this] 1[OF False] False show ?thesis
      by (subst natDigits.simps) auto
  qed
qed

lemma Itoa_no_dot: "CHR ''.'' \<notin> set (Itoa i)"
  by (simp add: Itoa_def natDigits_no_dot)

lemma dotsToXl_Cons: "a \<noteq> CHR ''.'' \<Longrightarrow> dotsToXl (a # s) = a # dotsToXl s"
  by (cases s) simp_all

lemma dotsToXl_no_dot: "CHR ''.'' \<notin> set s \<Longrightarrow> dotsToXl (s @ ''.xml'') = s @ ''.xml''"
  by (induction s) (simp_all add: dotsToXl_Cons[OF not_sym])

lemma tablePath_explicit:
  "tablePath f = ''xl/pivotTables/pivotTable'' @ Itoa (countPivotTables f + 1) @ ''.xml''"
proof -
  have "dotsToXl (''../pivotTables/pivotTable'' @ (Itoa (countPivotTables f + 1) @ ''.xml''))
          = ''xl/pivotTables/pivotTable'' @ dotsToXl (Itoa (countPivotTables f + 1) @ ''.xml'')"
    by (simp add: dotsToXl_Cons)
  then show ?thesis by (simp add: tablePath_def dotsToXl_no_dot Itoa_no_dot)
qed

text \<open>
  Claim C10. When \<open>Name\<close> is empty and the call passes the validation, the call succeeds
  and the table is stored under the name \<open>PivotTable\<close> followed by the number of the new
  table part: one more than the number of paths of the package that contain
  \<^verbatim>\<open>xl/pivotTables/pivotTable\<close>. The part itself is stored under
  \<^verbatim>\<open>xl/pivotTables/pivotTable\<close>, that number and \<^verbatim>\<open>.xml\<close>.
\<close>

theorem default_table_name:
  assumes "Name opts = []"
    and "adjustRange f (PivotTableRange opts) = Inr (sheet, c)"
    and "getTableFieldsOrder f (opts\<lparr>pivotSheetName := sheet\<rparr>) = ((order, None), opts0)"
    and "adjustRange f (pivotDataRange opts0) = Inr (ds, dc)"
    and "workSheetReader f ds = None"
    and "getSheetXMLPath f sheet = Some path"
  shows "\<exists>f' pt. AddPivotTable f (Some opts) = (None, f')
           \<and> map_of (Pkg f')
                (''xl/pivotTables/pivotTable''
                   @ Itoa (int (card {k \<in> fst ` set (Pkg f). sublist ''xl/pivotTables/pivotTable'' k}) + 1)
                   @ ''.xml'')
               = Some (PivotTablePart pt)
           \<and> ptName pt =
               ''PivotTable''
                 @ Itoa (int (card {k \<in> fst ` set (Pkg f). sublist ''xl/pivotTables/pivotTable'' k}) + 1)"
proof -
  have L: "length (Name opts) \<le> MaxFieldLength" using assms(1) by simp
  from AddPivotTable_succeeds[OF assms(2) L assms(3-6)] obtain f' where
    S: "AddPivotTable f (Some opts) = (None, f')" by blast
  have G: "fst (getTableFieldsOrder f (opts\<lparr>pivotSheetName := sheet\<rparr>)) = (order, None)"
    using assms(3) by simp
  from AddPivotTable_emits[OF S assms(2) G] obtain pt where
    1: "map_of (Pkg f') (tablePath f) = Some (PivotTablePart pt)"
    and 2: "ptName pt = (if Name opts = [] then ''PivotTable'' @ Itoa (countPivotTables f + 1)
                           else Name opts)"
    by blast
  show ?thesis
    apply (rule exI[of _ f'])
    apply (rule exI[of _ pt])
    using S 1 2 assms(1)
    unfolding tablePath_explicit countPivotTables_card
    by simp
qed

subsection \<open>Display names\<close>

lemma getPivotTableFieldsName_take:
  "getPivotTableFieldsName flds = map (\<lambda>fld. take MaxFieldLength (fldName fld)) flds"
  by (simp add: getPivotTableFieldsName_def)

lemma fieldNameLoop_find:
  "find (\<lambda>e. fldData e = name) flds = Some e \<Longrightarrow>
     fieldNameLoop name (zip flds (map g flds)) = g e"
  by (induction flds) (auto split: if_splits)

lemma getPivotTableFieldName_find:
  "find (\<lambda>e. fldData e = name) flds = Some e \<Longrightarrow>
     getPivotTableFieldName name flds = take MaxFieldLength (fldName e)"
  unfolding getPivotTableFieldName_def getPivotTableFieldsName_take
  by (rule fieldNameLoop_find)

lemma find_Some_mem: "find P xs = Some x \<Longrightarrow> x \<in> set xs \<and> P x"
  by (induction xs) (auto split: if_splits)

lemma pivotFieldFor_row_name:
  assumes "find (\<lambda>e. fldData e = name) (Rows opts) = Some e"
  shows "pfName (pivotFieldFor opts name) = take MaxFieldLength (fldName e)"
proof -
  from find_Some_mem[OF assms] have "name \<in> fldData ` set (Rows opts)" by force
  then show ?thesis
    by (simp add: pivotFieldFor_def inPivotTableField_iff getPivotTableFieldName_find[OF assms] Let_def
        split: prod.splits del: image_iff)
qed

lemma pivotFieldFor_col_name:
  assumes "find (\<lambda>e. fldData e = name) (Columns opts) = Some e"
    and "name \<notin> fldData ` set (Rows opts)"
  shows "pfName (pivotFieldFor opts name) = take MaxFieldLength (fldName e)"
proof -
  from find_Some_mem[OF assms(1)] have "name \<in> fldData ` set (Columns opts)" by force
  then show ?thesis
    using assms(2)
    by (simp add: pivotFieldFor_def inPivotTableField_iff getPivotTableFieldName_find[OF assms(1)] Let_def
        split: prod.splits del: image_iff)
qed

lemma dataFieldsFor_names:
  assumes "\<forall>fld \<in> set (Data opts). fldData fld \<in> set order" and "Data opts \<noteq> []"
  shows "\<exists>dfs. dataFieldsFor order opts = Some dfs
           \<and> map dfName (DataField dfs) = map (\<lambda>fld. take MaxFieldLength (fldName fld)) (Data opts)"
proof -
  have idx: "fieldsIndex order (Data opts) = map (\<lambda>fld. inStrSlice order (fldData fld)) (Data opts)"
    using assms(1) by (rule fieldsIndex_all_present)
  have ne: "fieldsIndex order (Data opts) \<noteq> []" using assms(2) by (simp add: idx)
  have "map dfName (map (\<lambda>(dataField, name, subtotal).
                            \<lparr>dfName = name, dfFld = dataField, dfSubtotal = subtotal\<rparr>)
                       (zip (fieldsIndex order (Data opts))
                          (zip (getPivotTableFieldsName (Data opts))
                             (getPivotTableFieldsSubtotal (Data opts)))))
        = map (\<lambda>fld. take MaxFieldLength (fldName fld)) (Data opts)"
    unfolding idx getPivotTableFieldsName_take getPivotTableFieldsSubtotal_def
    by (simp add: zip_map_map zip_same_conv_map comp_def case_prod_beta zip_map1 zip_map2)
  with ne show ?thesis by (simp add: dataFieldsFor_def)
qed

text \<open>
  Claim C9. The pivot field of a name on the filter axis takes its display name from
  \<open>Columns\<close>, never from \<open>Filter\<close>: it is the name of the first entry of \<open>Columns\<close> for that
  column of the data, cut to its first 255 characters, and it is empty when \<open>Columns\<close> has
  no such entry, whatever name the entry of \<open>Filter\<close> carries.
\<close>

theorem filter_field_name_from_columns:
  assumes "AddPivotTable f (Some opts) = (None, f')"
    and "adjustRange f (PivotTableRange opts) = Inr (sheet, c)"
    and "fst (getTableFieldsOrder f (opts\<lparr>pivotSheetName := sheet\<rparr>)) = (order, None)"
    and "i < length order"
    and "order ! i \<notin> fldData ` set (Rows opts)"
    and "order ! i \<in> fldData ` set (Filter opts)"
  shows "\<exists>pt pfs. map_of (Pkg f') (tablePath f) = Some (PivotTablePart pt)
           \<and> ptPivotFields pt = Some pfs
           \<and> pfAxis (PivotField pfs ! i) = ''axisPage''
           \<and> pfName (PivotField pfs ! i)
               = (case find (\<lambda>e. fldData e = order ! i) (Columns opts) of
                    Some e \<Rightarrow> take 255 (fldName e)
                  | None \<Rightarrow> [])"
proof -
  from AddPivotTable_emits[OF assms(1-3)] obtain pt where
    1: "map_of (Pkg f') (tablePath f) = Some (PivotTablePart pt)"
    and 2: "ptPivotFields pt =
              Some \<lparr>pivotFieldsCount = int (length order), PivotField = map (pivotFieldFor opts) order\<rparr>"
    by blast
  have 3: "pfAxis (pivotFieldFor opts (order ! i)) = ''axisPage''
         \<and> pfName (pivotFieldFor opts (order ! i)) = getPivotTableFieldName (order ! i) (Columns opts)"
    using assms(5,6) by (simp add: pivotFieldFor_def inPivotTableField_iff del: image_iff)
  have 4: "getPivotTableFieldName (order ! i) (Columns opts)
             = (case find (\<lambda>e. fldData e = order ! i) (Columns opts) of
                    Some e \<Rightarrow> take 255 (fldName e)
                  | None \<Rightarrow> [])"
  proof (cases "find (\<lambda>e. fldData e = order ! i) (Columns opts)")
    case None
    then have "order ! i \<notin> fldData ` set (Columns opts)"
      by (auto simp: find_None_iff)
    then show ?thesis using None by (simp add: getPivotTableFieldName_absent del: image_iff)
  next
    case (Some e)
    from getPivotTableFieldName_find[OF this] Some show ?thesis
      by (simp add: MaxFieldLength_def)
  qed
  show ?thesis
    apply (rule exI[of _ pt])
    apply (rule exI[of _ "\<lparr>pivotFieldsCount = int (length order), PivotField = map (pivotFieldFor opts) order\<rparr>"])
    using assms(4) 3 4 by (simp add: 1 2)
qed

subsection \<open>The length of names\<close>

lemma GetTables_reports: "GetTables f a = (tables, Some e) \<Longrightarrow> \<exists>s. snd (GetTables f s) = Some e"
  by (rule exI[of _ a]) simp

lemma scanTables_error:
  "scanTables f opts sheets = Some (Some e, o') \<Longrightarrow> \<exists>s. snd (GetTables f s) = Some e"
  by (induction sheets) (auto split: prod.splits if_splits option.splits intro: GetTables_reports)

lemma getPivotTableDataRange_error:
  "getPivotTableDataRange f opts = (Some e, o') \<Longrightarrow>
     (\<exists>e'. e = PivotTableDataRangeError e') \<or> (\<exists>s. snd (GetTables f s) = Some e)"
  by (auto simp: getPivotTableDataRange_def Let_def split: if_splits option.splits
      dest: scanTables_error)

lemma parseFormat_error:
  assumes "parseFormatPivotTableSet f (Some opts) = Inl e"
    and "adjustRange f (PivotTableRange opts) = Inr (s, c)"
    and "length (Name opts) \<le> MaxFieldLength"
  shows "(\<exists>e'. e = PivotTableDataRangeError e') \<or> (\<exists>s. snd (GetTables f s) = Some e)
         \<or> (\<exists>s. workSheetReader f s = Some e) \<or> (\<exists>s. e = ErrSheetNotExist s)"
  using assms unfolding parseFormatPivotTableSet_def
  by (auto split: sum.splits prod.splits option.splits if_splits dest: getPivotTableDataRange_error)

lemma AddPivotTable_after_parse:
  assumes P: "parseFormatPivotTableSet f (Some opts) = Inr (path, opts0)"
  shows "fst (AddPivotTable f (Some opts)) = None
         \<or> (\<exists>e. fst (AddPivotTable f (Some opts)) = Some (PivotTableDataRangeError e))"
proof -
  from P obtain ds dc where R0: "adjustRange f (pivotDataRange opts0) = Inr (ds, dc)"
    by (auto simp: parseFormat_Inr_iff)
  obtain x1 y1 x2 y2 where dc: "dc = (x1, y1, x2, y2)" by (cases dc) auto
  have R: "adjustRange f (pivotDataRange opts0) = Inr (ds, x1, y1, x2, y2)"
    using R0 dc by simp
  obtain order eo where O: "readHeader f ds y1 [x1..x2] = (order, eo)"
    by (cases "readHeader f ds y1 [x1..x2]") auto
  show ?thesis
  proof (cases eo)
    case None
    with AddPivotTable_ok[OF P R] O show ?thesis by fastforce
  next
    case (Some err)
    with AddPivotTable_header_fails[OF P R] O show ?thesis by simp
  qed
qed

lemma name_too_long_iff:
  assumes PR: "adjustRange f (PivotTableRange opts) = Inr (sheet, c)"
    and E1: "\<forall>s. snd (GetTables f s) \<noteq> Some ErrNameLength"
    and E2: "\<forall>s. workSheetReader f s \<noteq> Some ErrNameLength"
  shows "fst (AddPivotTable f (Some opts)) = Some ErrNameLength \<longleftrightarrow> MaxFieldLength < length (Name opts)"
proof (cases "MaxFieldLength < length (Name opts)")
  case True
  then have "parseFormatPivotTableSet f (Some opts) = Inl ErrNameLength"
    by (simp add: parseFormatPivotTableSet_def PR)
  from AddPivotTable_parse_fails[OF this] True show ?thesis by simp
next
  case False
  then have L: "length (Name opts) \<le> MaxFieldLength" by simp
  have "fst (AddPivotTable f (Some opts)) \<noteq> Some ErrNameLength"
  proof (cases "parseFormatPivotTableSet f (Some opts)")
    case (Inl e)
    from parseFormat_error[OF Inl PR L] E1 E2 have "e \<noteq> ErrNameLength" by auto
    with AddPivotTable_parse_fails[OF Inl] show ?thesis by simp
  next
    case (Inr r)
    obtain path opts0 where "r = (path, opts0)" by (cases r) auto
    with Inr AddPivotTable_after_parse[of f opts path opts0] show ?thesis by auto
  qed
  with False show ?thesis by simp
qed

lemma dataFieldsFor_all_names:
  assumes "\<forall>fld \<in> set (Data opts). fldData fld \<in> set order"
  shows "map dfName (case dataFieldsFor order opts of None \<Rightarrow> [] | Some dfs \<Rightarrow> DataField dfs)
           = map (\<lambda>fld. take 255 (fldName fld)) (Data opts)"
proof (cases "Data opts = []")
  case True
  then show ?thesis by (simp add: dataFieldsFor_def)
next
  case False
  from dataFieldsFor_names[OF assms False] show ?thesis
    by (auto simp: MaxFieldLength_def)
qed

text \<open>
  Claim C7, as amended. The table range is checked before the name, so the equivalence
  is for the calls whose \<open>PivotTableRange\<close> is valid, on a file where neither \<open>GetTables\<close>
  nor \<open>workSheetReader\<close> reports \<open>ErrNameLength\<close> itself: such a call fails with
  \<open>ErrNameLength\<close> exactly when \<open>Name\<close> has more than 255 characters. No length of a field's
  display name makes a call fail: a call that passes the validation succeeds. When every
  entry of \<open>Data\<close> names a column of the data, the data fields carry the names of the
  entries, in order, each cut to its first 255 characters. The pivot field of a column
  named in \<open>Rows\<close> carries the name of the first entry of \<open>Rows\<close> for it, cut to 255
  characters; the pivot field of a column not in \<open>Rows\<close> but in \<open>Columns\<close> carries the name
  of the first entry of \<open>Columns\<close> for it, cut to 255 characters. Nothing is said of the
  data fields when an entry of \<open>Data\<close> names no column of the data.
\<close>

theorem name_length_policy:
  assumes "adjustRange f (PivotTableRange opts) = Inr (sheet, c)"
    and "\<forall>s. snd (GetTables f s) \<noteq> Some ErrNameLength"
    and "\<forall>s. workSheetReader f s \<noteq> Some ErrNameLength"
  shows "(fst (AddPivotTable f (Some opts)) = Some ErrNameLength \<longleftrightarrow> 255 < length (Name opts))
       \<and> (\<forall>order opts0 ds dc path.
            length (Name opts) \<le> 255
            \<and> getTableFieldsOrder f (opts\<lparr>pivotSheetName := sheet\<rparr>) = ((order, None), opts0)
            \<and> adjustRange f (pivotDataRange opts0) = Inr (ds, dc)
            \<and> workSheetReader f ds = None
            \<and> getSheetXMLPath f sheet = Some path
            \<longrightarrow> (\<exists>f' pt pfs. AddPivotTable f (Some opts) = (None, f')
                   \<and> map_of (Pkg f') (tablePath f) = Some (PivotTablePart pt)
                   \<and> ptPivotFields pt = Some pfs
                   \<and> ((\<forall>fld \<in> set (Data opts). fldData fld \<in> set order) \<longrightarrow>
                        map dfName (case ptDataFields pt of None \<Rightarrow> [] | Some dfs \<Rightarrow> DataField dfs)
                          = map (\<lambda>fld. take 255 (fldName fld)) (Data opts))
                   \<and> (\<forall>i e. i < length order
                          \<and> find (\<lambda>e. fldData e = order ! i) (Rows opts) = Some e
                        \<longrightarrow> pfName (PivotField pfs ! i) = take 255 (fldName e))
                   \<and> (\<forall>i e. i < length order
                          \<and> order ! i \<notin> fldData ` set (Rows opts)
                          \<and> find (\<lambda>e. fldData e = order ! i) (Columns opts) = Some e
                        \<longrightarrow> pfName (PivotField pfs ! i) = take 255 (fldName e))))"
proof (intro conjI allI impI)
  show "fst (AddPivotTable f (Some opts)) = Some ErrNameLength \<longleftrightarrow> 255 < length (Name opts)"
    using name_too_long_iff[OF assms] by (simp add: MaxFieldLength_def)
next
  fix order opts0 ds dc path
  assume a: "length (Name opts) \<le> 255
            \<and> getTableFieldsOrder f (opts\<lparr>pivotSheetName := sheet\<rparr>) = ((order, None), opts0)
            \<and> adjustRange f (pivotDataRange opts0) = Inr (ds, dc)
            \<and> workSheetReader f ds = None
            \<and> getSheetXMLPath f sheet = Some path"
  then have L: "length (Name opts) \<le> MaxFieldLength"
    and G0: "getTableFieldsOrder f (opts\<lparr>pivotSheetName := sheet\<rparr>) = ((order, None), opts0)"
    and R: "adjustRange f (pivotDataRange opts0) = Inr (ds, dc)"
    and W: "workSheetReader f ds = None"
    and X: "getSheetXMLPath f sheet = Some path"
    by (simp_all add: MaxFieldLength_def)
  from AddPivotTable_succeeds[OF assms(1) L G0 R W X] obtain f' where
    S: "AddPivotTable f (Some opts) = (None, f')" by blast
  have G: "fst (getTableFieldsOrder f (opts\<lparr>pivotSheetName := sheet\<rparr>)) = (order, None)"
    using G0 by simp
  from AddPivotTable_emits[OF S assms(1) G] obtain pt where
    1: "map_of (Pkg f') (tablePath f) = Some (PivotTablePart pt)"
    and 2: "ptPivotFields pt =
              Some \<lparr>pivotFieldsCount = int (length order), PivotField = map (pivotFieldFor opts) order\<rparr>"
    and 3: "ptDataFields pt = dataFieldsFor order opts"
    by blast
  let ?pfs = "\<lparr>pivotFieldsCount = int (length order), PivotField = map (pivotFieldFor opts) order\<rparr>"
  have d: "(\<forall>fld \<in> set (Data opts). fldData fld \<in> set order) \<longrightarrow>
             map dfName (case ptDataFields pt of None \<Rightarrow> [] | Some dfs \<Rightarrow> DataField dfs)
               = map (\<lambda>fld. take 255 (fldName fld)) (Data opts)"
    unfolding 3 using dataFieldsFor_all_names[of opts order] by blast
  have r: "\<forall>i e. i < length order \<and> find (\<lambda>e. fldData e = order ! i) (Rows opts) = Some e
                        \<longrightarrow> pfName (PivotField ?pfs ! i) = take 255 (fldName e)"
    by (simp add: pivotFieldFor_row_name MaxFieldLength_def)
  have cl: "\<forall>i e. i < length order \<and> order ! i \<notin> fldData ` set (Rows opts)
                          \<and> find (\<lambda>e. fldData e = order ! i) (Columns opts) = Some e
                        \<longrightarrow> pfName (PivotField ?pfs ! i) = take 255 (fldName e)"
    by (simp add: pivotFieldFor_col_name MaxFieldLength_def del: image_iff)
  from S 1 2 d r cl
  show "\<exists>f' pt pfs. AddPivotTable f (Some opts) = (None, f')
                   \<and> map_of (Pkg f') (tablePath f) = Some (PivotTablePart pt)
                   \<and> ptPivotFields pt = Some pfs
                   \<and> ((\<forall>fld \<in> set (Data opts). fldData fld \<in> set order) \<longrightarrow>
                        map dfName (case ptDataFields pt of None \<Rightarrow> [] | Some dfs \<Rightarrow> DataField dfs)
                          = map (\<lambda>fld. take 255 (fldName fld)) (Data opts))
                   \<and> (\<forall>i e. i < length order
                          \<and> find (\<lambda>e. fldData e = order ! i) (Rows opts) = Some e
                        \<longrightarrow> pfName (PivotField pfs ! i) = take 255 (fldName e))
                   \<and> (\<forall>i e. i < length order
                          \<and> order ! i \<notin> fldData ` set (Rows opts)
                          \<and> find (\<lambda>e. fldData e = order ! i) (Columns opts) = Some e
                        \<longrightarrow> pfName (PivotField pfs ! i) = take 255 (fldName e))"
    by blast
qed

subsection \<open>The header row\<close>

lemma readHeader_all_named:
  assumes "\<forall>col \<in> set cols. GetCellValue f ds (CoordinatesToCellName f col row) = Inr (h col)"
    and "\<forall>col \<in> set cols. h col \<noteq> []"
  shows "readHeader f ds row cols = (map h cols, None)"
  using assms by (induction cols) auto

lemma readHeader_empty_cell_snd:
  assumes "\<forall>col \<in> set cols. GetCellValue f ds (CoordinatesToCellName f col row) = Inr (h col)"
    and "\<exists>col \<in> set cols. h col = []"
  shows "snd (readHeader f ds row cols) = Some ErrParameterInvalid"
  using assms
proof (induction cols)
  case Nil
  then show ?case by simp
next
  case (Cons a cols)
  show ?case
  proof (cases "h a = []")
    case True
    with Cons.prems show ?thesis by simp
  next
    case False
    with Cons.prems have "\<exists>col \<in> set cols. h col = []" by auto
    with Cons have "snd (readHeader f ds row cols) = Some ErrParameterInvalid" by simp
    with False Cons.prems show ?thesis by (auto split: prod.splits)
  qed
qed

lemma readHeader_empty_cell:
  assumes "\<forall>col \<in> set cols. GetCellValue f ds (CoordinatesToCellName f col row) = Inr (h col)"
    and "\<not> (\<forall>col \<in> set cols. h col \<noteq> [])"
  shows "\<exists>names. readHeader f ds row cols = (names, Some ErrParameterInvalid)"
proof -
  from assms(2) have "\<exists>col \<in> set cols. h col = []" by blast
  from readHeader_empty_cell_snd[OF assms(1) this] show ?thesis
    by (cases "readHeader f ds row cols") simp
qed

lemma adjustRange_ordered:
  "adjustRange f r = Inr (s, x1, y1, x2, y2) \<Longrightarrow> x1 \<le> x2 \<and> y1 \<le> y2"
  by (auto simp: adjustRange_def split: if_splits list.splits sum.splits prod.splits)

text \<open>
  Claim C5, as amended. Take a call that passes the validation and whose data range is
  the columns \<open>x1..x2\<close> from row \<open>y1\<close>, with \<open>h col\<close> the header cell of column \<open>col\<close>. When no
  header cell is empty the call succeeds and the cache it emits has \<open>x2 - x1 + 1\<close> fields,
  named after the header cells from left to right, each marked as containing blanks.
  When some header cell is empty, reading the header fails with \<open>ErrParameterInvalid\<close>,
  and the call fails with the data-range error that wraps it and changes nothing.
\<close>

theorem header_row_cache_fields:
  assumes PR: "adjustRange f (PivotTableRange opts) = Inr (sheet, c)"
    and L: "length (Name opts) \<le> MaxFieldLength"
    and DR: "getPivotTableDataRange f (opts\<lparr>pivotSheetName := sheet\<rparr>) = (None, opts0)"
    and R: "adjustRange f (pivotDataRange opts0) = Inr (ds, x1, y1, x2, y2)"
    and W: "workSheetReader f ds = None"
    and X: "getSheetXMLPath f sheet = Some path"
    and cells: "\<forall>col \<in> {x1..x2}. GetCellValue f ds (CoordinatesToCellName f col y1) = Inr (h col)"
  shows "if \<forall>col \<in> {x1..x2}. h col \<noteq> []
         then \<exists>f' pc cfs. AddPivotTable f (Some opts) = (None, f')
                \<and> map_of (Pkg f') (cachePath f) = Some (PivotCachePart pc)
                \<and> CacheFields pc = Some cfs
                \<and> cacheFieldsCount cfs = x2 - x1 + 1
                \<and> CacheField cfs =
                     map (\<lambda>col. \<lparr>cfName = h col, SharedItems = Some \<lparr>ContainsBlank = True, M = 1\<rparr>\<rparr>)
                       [x1..x2]
         else AddPivotTable f (Some opts) = (Some (PivotTableDataRangeError ErrParameterInvalid), f)
                \<and> snd (fst (getTableFieldsOrder f (opts\<lparr>pivotSheetName := sheet\<rparr>)))
                     = Some ErrParameterInvalid"
proof -
  have P: "parseFormatPivotTableSet f (Some opts) = Inr (path, opts0)"
    using PR L DR R W X by (rule parseFormat_from_checks)
  have cells': "\<forall>col \<in> set [x1..x2]. GetCellValue f ds (CoordinatesToCellName f col y1) = Inr (h col)"
    using cells by simp
  have G: "fst (getTableFieldsOrder f (opts\<lparr>pivotSheetName := sheet\<rparr>)) = readHeader f ds y1 [x1..x2]"
    by (simp add: getTableFieldsOrder_def DR R)
  have le: "x1 \<le> x2" using adjustRange_ordered[OF R] by simp
  show ?thesis
  proof (cases "\<forall>col \<in> {x1..x2}. h col \<noteq> []")
    case True
    then have "\<forall>col \<in> set [x1..x2]. h col \<noteq> []" by simp
    from readHeader_all_named[OF cells' this]
    have O: "readHeader f ds y1 [x1..x2] = (map h [x1..x2], None)" .
    from AddPivotTable_ok[OF P R O] obtain f' pc where
      1: "AddPivotTable f (Some opts) = (None, f')"
      and 2: "map_of (Pkg f') (cachePath f) = Some (PivotCachePart pc)"
      and 3: "CacheFields pc =
               Some \<lparr>cacheFieldsCount = int (length (map h [x1..x2])),
                     CacheField = map (\<lambda>name. \<lparr>cfName = name,
                                    SharedItems = Some \<lparr>ContainsBlank = True, M = 1\<rparr>\<rparr>) (map h [x1..x2])\<rparr>"
      by blast
    let ?cfs = "\<lparr>cacheFieldsCount = int (length (map h [x1..x2])),
                     CacheField = map (\<lambda>name. \<lparr>cfName = name,
                                    SharedItems = Some \<lparr>ContainsBlank = True, M = 1\<rparr>\<rparr>) (map h [x1..x2])\<rparr>"
    have 4: "cacheFieldsCount ?cfs = x2 - x1 + 1" using le by simp
    have 5: "CacheField ?cfs =
                     map (\<lambda>col. \<lparr>cfName = h col, SharedItems = Some \<lparr>ContainsBlank = True, M = 1\<rparr>\<rparr>)
                       [x1..x2]" by (simp add: comp_def)
    from 1 2 3 4 5 have ex: "\<exists>f' pc cfs. AddPivotTable f (Some opts) = (None, f')
                \<and> map_of (Pkg f') (cachePath f) = Some (PivotCachePart pc)
                \<and> CacheFields pc = Some cfs
                \<and> cacheFieldsCount cfs = x2 - x1 + 1
                \<and> CacheField cfs =
                     map (\<lambda>col. \<lparr>cfName = h col, SharedItems = Some \<lparr>ContainsBlank = True, M = 1\<rparr>\<rparr>)
                       [x1..x2]"
      by blast
    show ?thesis by (subst if_P[OF True]) (rule ex)
  next
    case False
    then have "\<not> (\<forall>col \<in> set [x1..x2]. h col \<noteq> [])" by simp
    from readHeader_empty_cell[OF cells' this] obtain names where
      O: "readHeader f ds y1 [x1..x2] = (names, Some ErrParameterInvalid)" by blast
    from AddPivotTable_header_fails[OF P R O] G O False show ?thesis by simp
  qed
qed

text \<open>
  Claim C2, as amended. Resolving an axis list to indices fails only when the header row
  cannot be read. Otherwise it succeeds, and an entry whose name is not in the header row
  is left out: the result is the positions of the entries that are found, in order.
\<close>

theorem getPivotFieldsIndex_skips_absent:
  "fst (getPivotFieldsIndex f flds opts) =
     (case fst (getTableFieldsOrder f opts) of
        (order, None) \<Rightarrow>
          (map (\<lambda>fld. inStrSlice order (fldData fld))
             (filter (\<lambda>fld. fldData fld \<in> set order) flds), None)
      | (order, Some err) \<Rightarrow> ([], Some err))"
  by (simp add: getPivotFieldsIndex_def fieldsIndex_eq split: prod.splits option.splits)

subsection \<open>Deleting a pivot table\<close>















lemma matchPivotTable_None:
  "\<forall>opt \<in> set opts. Name opt \<noteq> name \<Longrightarrow> matchPivotTable name rels opts = None"
proof (induction rels)
  case Nil
  then show ?case by simp
next
  case (Cons v rest)
  then have "find (\<lambda>opt. relType v = SourceRelationshipPivotTable \<and> Name opt = name
                        \<and> pivotTableXML opt = dotsToXl (relTarget v)) opts = None"
    by (auto simp: find_None_iff)
  then show ?case using Cons by simp
qed




text \<open>
  Claim C8, as amended. Take a sheet that exists and a name that no pivot table read from
  that sheet has. \<open>DeletePivotTable\<close> then fails and changes nothing in the file. The
  error is \<open>NoExistTableError\<close> when the pivot tables of the sheet are read without an
  error and reading the pivot tables of no sheet panics; when they cannot be read, the
  error is that of reading them.
\<close>

theorem delete_missing_table:
  assumes "getSheetXMLPath f sheet = Some sheetXML"
    and "\<forall>opt \<in> set (fst (GetPivotTables f sheet)). Name opt \<noteq> name"
  shows "snd (DeletePivotTable f sheet name) = f
       \<and> fst (DeletePivotTable f sheet name) \<noteq> None
       \<and> (snd (GetPivotTables f sheet) = None
            \<and> (\<forall>s \<in> set (GetSheetList f). snd (GetPivotTables f s) \<noteq> Some Panic)
          \<longrightarrow> DeletePivotTable f sheet name = (Some (NoExistTableError name), f))
       \<and> (\<forall>err. snd (GetPivotTables f sheet) = Some err
          \<longrightarrow> DeletePivotTable f sheet name = (Some err, f))"
proof (cases "relsReader f (sheetRelsPath sheetXML)")
  case (Inl err)
  then have "snd (GetPivotTables f sheet) = Some err"
    using assms(1) by (simp add: GetPivotTables_def)
  moreover have "DeletePivotTable f sheet name = (Some err, f)"
    using assms(1) Inl by (simp add: DeletePivotTable_def)
  ultimately show ?thesis by simp
next
  case (Inr sheetRels)
  obtain opts e where G: "GetPivotTables f sheet = (opts, e)"
    by (cases "GetPivotTables f sheet") simp
  have m: "\<And>rels. matchPivotTable name rels opts = None"
    using assms(2) G by (simp add: matchPivotTable_None)
  show ?thesis
  proof (cases e)
    case (Some err)
    then have "DeletePivotTable f sheet name = (Some err, f)"
      using assms(1) Inr G by (simp add: DeletePivotTable_def)
    then show ?thesis using G Some by simp
  next
    case None
    show ?thesis
    proof (cases "list_ex (\<lambda>sheetName. snd (GetPivotTables f sheetName) = Some Panic) (GetSheetList f)")
      case True
      then have "DeletePivotTable f sheet name = (Some Panic, f)"
        using assms(1) Inr G None by (simp add: DeletePivotTable_def)
      then show ?thesis using True G None by (auto simp: list_ex_iff)
    next
      case False
      then have "DeletePivotTable f sheet name = (Some (NoExistTableError name), f)"
        using assms(1) Inr G None m by (simp add: DeletePivotTable_def)
      then show ?thesis using G None by simp
    qed
  qed
qed





subsection \<open>The example workbook\<close>

lemma demo_range: "adjustRange book (PivotTableRange demoOptions) = Inr (''Sheet1'', 7, 2, 13, 34)"
  by code_simp

lemma demo_order:
  "getTableFieldsOrder book (demoOptions\<lparr>pivotSheetName := ''Sheet1''\<rparr>) = ((demoHeader, None), demoResolved)"
  by code_simp

lemma demo_data_range: "adjustRange book (pivotDataRange demoResolved) = Inr (''Sheet1'', 1, 1, 5, 31)"
  by code_simp

lemma demo_success: "AddPivotTable book (Some demoOptions) = (None, demoAfter)"
proof -
  have "fst (AddPivotTable book (Some demoOptions)) = None" by code_simp
  then show ?thesis by (simp add: demoAfter_def prod_eq_iff)
qed

lemma demo_order_fst:
  "fst (getTableFieldsOrder book (demoOptions\<lparr>pivotSheetName := ''Sheet1''\<rparr>)) = (demoHeader, None)"
  by (subst demo_order) (rule fst_conv)

theorem colFields_synthesis_witness:
  "\<exists>pt. map_of (Pkg demoAfter) (tablePath book) = Some (PivotTablePart pt)
       \<and> ptColFields pt = Some \<lparr>colFieldsCount = 2, colField = [2, - 2]\<rparr>"
proof -
  from colFields_synthesis[OF demo_success demo_range demo_order_fst] obtain pt where
    1: "map_of (Pkg demoAfter) (tablePath book) = Some (PivotTablePart pt)"
    and 2: "Columns demoOptions \<noteq> [] \<longrightarrow>
                 (\<exists>cols. ptColFields pt = Some cols
                    \<and> colField cols =
                        map (\<lambda>column. inStrSlice demoHeader (fldData column))
                          (filter (\<lambda>column. fldData column \<in> set demoHeader) (Columns demoOptions))
                        @ (if 2 \<le> length (Data demoOptions) then [- 2] else [])
                    \<and> colFieldsCount cols = int (length (colField cols)))"
    by blast
  have 3: "Columns demoOptions \<noteq> []" by code_simp
  have 4: "map (\<lambda>column. inStrSlice demoHeader (fldData column))
             (filter (\<lambda>column. fldData column \<in> set demoHeader) (Columns demoOptions))
           @ (if 2 \<le> length (Data demoOptions) then [- 2] else []) = [2, - 2]"
    by code_simp
  from 2 3 4 obtain cols where "ptColFields pt = Some cols" "colField cols = [2, - 2]"
    "colFieldsCount cols = int (length (colField cols))" by auto
  then have "ptColFields pt = Some \<lparr>colFieldsCount = 2, colField = [2, - 2]\<rparr>"
    by (cases cols) simp
  with 1 show ?thesis by blast
qed


lemma demo_worksheet: "workSheetReader book ''Sheet1'' = None"
  by code_simp

lemma demo_sheet_path: "getSheetXMLPath book ''Sheet1'' = Some ''xl/worksheets/sheet1.xml''"
  by code_simp

theorem axis_first_match_witness:
  "\<exists>pt pfs. map_of (Pkg demoAfter) (tablePath book) = Some (PivotTablePart pt)
       \<and> ptPivotFields pt = Some pfs
       \<and> length (PivotField pfs) = 5
       \<and> ''Year'' \<in> fldData ` set (Rows demoOptions)
       \<and> ''Year'' \<in> fldData ` set (Data demoOptions)
       \<and> pfAxis (PivotField pfs ! 1) = ''axisRow''"
proof -
  from axis_first_match[OF demo_success demo_range demo_order_fst] obtain pt pfs where
    1: "map_of (Pkg demoAfter) (tablePath book) = Some (PivotTablePart pt)"
    and 2: "ptPivotFields pt = Some pfs"
    and 3: "length (PivotField pfs) = length demoHeader"
    and 4: "\<forall>i < length demoHeader.
                 if demoHeader ! i \<in> fldData ` set (Rows demoOptions)
                   then pfAxis (PivotField pfs ! i) = ''axisRow''
                 else if demoHeader ! i \<in> fldData ` set (Filter demoOptions)
                   then pfAxis (PivotField pfs ! i) = ''axisPage''
                 else if demoHeader ! i \<in> fldData ` set (Columns demoOptions)
                   then pfAxis (PivotField pfs ! i) = ''axisCol''
                 else if demoHeader ! i \<in> fldData ` set (Data demoOptions)
                   then pfAxis (PivotField pfs ! i) = [] \<and> pfDataField (PivotField pfs ! i)
                 else PivotField pfs ! i =
                        \<lparr>pfName = [], pfAxis = [], pfDataField = False, pfCompact = None,
                         pfOutline = None, pfDefaultSubtotal = None, pfItems = None\<rparr>"
    by blast
  have h: "length demoHeader = 5" by (simp add: demoHeader_def)
  have h1: "demoHeader ! 1 = ''Year''" by (simp add: demoHeader_def)
  have lt: "1 < length demoHeader" by (simp add: demoHeader_def)
  have r: "''Year'' \<in> fldData ` set (Rows demoOptions)" by code_simp
  have d: "''Year'' \<in> fldData ` set (Data demoOptions)" by code_simp
  have a: "pfAxis (PivotField pfs ! 1) = ''axisRow''"
    using 4[rule_format, OF lt] unfolding h1 if_P[OF r] .
  from 1 2 3 h r d a show ?thesis by metis
qed


lemma demo_name: "Name demoOptions = []"
  by code_simp

lemma book_tables: "\<forall>s. snd (GetTables book s) \<noteq> Some ErrNameLength"
  by (simp add: book_def)

lemma book_worksheets: "\<forall>s. workSheetReader book s \<noteq> Some ErrNameLength"
  by (simp add: book_def)

theorem filter_field_name_from_columns_witness:
  "(\<exists>pt pfs. map_of (Pkg (snd (AddPivotTable book (Some filterColumnOptions)))) (tablePath book)
                = Some (PivotTablePart pt)
       \<and> ptPivotFields pt = Some pfs
       \<and> Filter filterColumnOptions = [(fieldOf ''Region'')\<lparr>fldName := ''Where''\<rparr>]
       \<and> pfAxis (PivotField pfs ! 4) = ''axisPage''
       \<and> pfName (PivotField pfs ! 4) = ''Area'')
   \<and> (\<exists>pt pfs. map_of (Pkg demoAfter) (tablePath book) = Some (PivotTablePart pt)
       \<and> ptPivotFields pt = Some pfs
       \<and> Filter demoOptions = [(fieldOf ''Region'')\<lparr>fldName := ''Where''\<rparr>]
       \<and> pfAxis (PivotField pfs ! 4) = ''axisPage''
       \<and> pfName (PivotField pfs ! 4) = [])"
proof -
  have lt: "4 < length demoHeader" by (simp add: demoHeader_def)
  have h4: "demoHeader ! 4 = ''Region''" by (simp add: demoHeader_def)
  have s: "AddPivotTable book (Some filterColumnOptions)
             = (None, snd (AddPivotTable book (Some filterColumnOptions)))"
  proof -
    have "fst (AddPivotTable book (Some filterColumnOptions)) = None" by code_simp
    then show ?thesis by (simp add: prod_eq_iff)
  qed
  have pr: "adjustRange book (PivotTableRange filterColumnOptions) = Inr (''Sheet1'', 7, 2, 13, 34)"
    by code_simp
  have g: "fst (getTableFieldsOrder book (filterColumnOptions\<lparr>pivotSheetName := ''Sheet1''\<rparr>))
             = (demoHeader, None)" by code_simp
  have r: "demoHeader ! 4 \<notin> fldData ` set (Rows filterColumnOptions)" unfolding h4 by code_simp
  have fl: "demoHeader ! 4 \<in> fldData ` set (Filter filterColumnOptions)" unfolding h4 by code_simp
  have fv: "Filter filterColumnOptions = [(fieldOf ''Region'')\<lparr>fldName := ''Where''\<rparr>]" by code_simp
  have cv: "(case find (\<lambda>e. fldData e = demoHeader ! 4) (Columns filterColumnOptions) of
               Some e \<Rightarrow> take 255 (fldName e) | None \<Rightarrow> []) = ''Area''" unfolding h4 by code_simp
  have a: "\<exists>pt pfs. map_of (Pkg (snd (AddPivotTable book (Some filterColumnOptions)))) (tablePath book)
                = Some (PivotTablePart pt)
       \<and> ptPivotFields pt = Some pfs
       \<and> Filter filterColumnOptions = [(fieldOf ''Region'')\<lparr>fldName := ''Where''\<rparr>]
       \<and> pfAxis (PivotField pfs ! 4) = ''axisPage''
       \<and> pfName (PivotField pfs ! 4) = ''Area''"
    using filter_field_name_from_columns[OF s pr g lt r fl] fv unfolding cv by blast
  have r': "demoHeader ! 4 \<notin> fldData ` set (Rows demoOptions)" unfolding h4 by code_simp
  have fl': "demoHeader ! 4 \<in> fldData ` set (Filter demoOptions)" unfolding h4 by code_simp
  have fv': "Filter demoOptions = [(fieldOf ''Region'')\<lparr>fldName := ''Where''\<rparr>]" by code_simp
  have cv': "(case find (\<lambda>e. fldData e = demoHeader ! 4) (Columns demoOptions) of
               Some e \<Rightarrow> take 255 (fldName e) | None \<Rightarrow> []) = []" unfolding h4 by code_simp
  have b: "\<exists>pt pfs. map_of (Pkg demoAfter) (tablePath book) = Some (PivotTablePart pt)
       \<and> ptPivotFields pt = Some pfs
       \<and> Filter demoOptions = [(fieldOf ''Region'')\<lparr>fldName := ''Where''\<rparr>]
       \<and> pfAxis (PivotField pfs ! 4) = ''axisPage''
       \<and> pfName (PivotField pfs ! 4) = []"
    using filter_field_name_from_columns[OF demo_success demo_range demo_order_fst lt r' fl'] fv'
    unfolding cv' by blast
  from a b show ?thesis by (rule conjI)
qed

theorem default_table_name_witness:
  "map fst (Pkg demoAfter) = [''xl/pivotCache/pivotCacheDefinition1.xml'', ''xl/pivotTables/pivotTable1.xml'']
   \<and> (\<exists>f' pt. AddPivotTable demoAfter (Some demoOptions) = (None, f')
         \<and> map_of (Pkg f') ''xl/pivotTables/pivotTable2.xml'' = Some (PivotTablePart pt)
         \<and> ptName pt = ''PivotTable2'')"
proof -
  have p: "map fst (Pkg demoAfter)
             = [''xl/pivotCache/pivotCacheDefinition1.xml'', ''xl/pivotTables/pivotTable1.xml'']"
    by code_simp
  have 1: "adjustRange demoAfter (PivotTableRange demoOptions) = Inr (''Sheet1'', 7, 2, 13, 34)"
    by code_simp
  have 2: "getTableFieldsOrder demoAfter (demoOptions\<lparr>pivotSheetName := ''Sheet1''\<rparr>)
             = ((demoHeader, None), demoResolved)"
    by code_simp
  have 3: "adjustRange demoAfter (pivotDataRange demoResolved) = Inr (''Sheet1'', 1, 1, 5, 31)"
    by code_simp
  have 4: "workSheetReader demoAfter ''Sheet1'' = None" by code_simp
  have 5: "getSheetXMLPath demoAfter ''Sheet1'' = Some ''xl/worksheets/sheet1.xml''" by code_simp
  have n: "Itoa (int (card {k \<in> fst ` set (Pkg demoAfter). sublist ''xl/pivotTables/pivotTable'' k}) + 1)
             = ''2''"
    by code_simp
  from default_table_name[OF demo_name 1 2 3 4 5]
  have "\<exists>f' pt. AddPivotTable demoAfter (Some demoOptions) = (None, f')
         \<and> map_of (Pkg f') ''xl/pivotTables/pivotTable2.xml'' = Some (PivotTablePart pt)
         \<and> ptName pt = ''PivotTable2''"
    unfolding n by simp
  with p show ?thesis by (rule conjI)
qed

theorem name_length_policy_counterexample:
  "255 < length (Name longNameNoRangeOptions)
   \<and> fst (AddPivotTable book (Some longNameNoRangeOptions)) = Some (PivotTableRangeError ErrParameterRequired)
   \<and> fst (AddPivotTable book (Some longNameNoRangeOptions)) \<noteq> Some ErrNameLength
   \<and> map fldData (Data strayDataOptions) = [''Bogus'', ''Sales'']
   \<and> map (length \<circ> fldName) (Data strayDataOptions) = [1, 300]
   \<and> fst (AddPivotTable book (Some strayDataOptions)) = None
   \<and> map (\<lambda>df. (dfName df, dfFld df))
        (case map_of (Pkg (snd (AddPivotTable book (Some strayDataOptions)))) (tablePath book) of
           Some (PivotTablePart pt) \<Rightarrow>
             (case ptDataFields pt of Some dfs \<Rightarrow> DataField dfs | None \<Rightarrow> [])
         | _ \<Rightarrow> []) = [(''b'', 3)]"
proof -
  have 1: "255 < length (Name longNameNoRangeOptions)" by code_simp
  have 2: "fst (AddPivotTable book (Some longNameNoRangeOptions))
             = Some (PivotTableRangeError ErrParameterRequired)" by code_simp
  have 3: "map fldData (Data strayDataOptions) = [''Bogus'', ''Sales'']" by code_simp
  have 4: "map (length \<circ> fldName) (Data strayDataOptions) = [1, 300]" by code_simp
  have 5: "fst (AddPivotTable book (Some strayDataOptions)) = None" by code_simp
  have 6: "map (\<lambda>df. (dfName df, dfFld df))
        (case map_of (Pkg (snd (AddPivotTable book (Some strayDataOptions)))) (tablePath book) of
           Some (PivotTablePart pt) \<Rightarrow>
             (case ptDataFields pt of Some dfs \<Rightarrow> DataField dfs | None \<Rightarrow> [])
         | _ \<Rightarrow> []) = [(''b'', 3)]" by code_simp
  from 1 2 3 4 5 6 show ?thesis by simp
qed

theorem name_length_policy_witness:
  "fst (AddPivotTable book (Some longNameOptions)) = Some ErrNameLength
   \<and> fst (AddPivotTable book (Some demoOptions)) \<noteq> Some ErrNameLength
   \<and> (\<exists>f' pt pfs. AddPivotTable book (Some longFieldsOptions) = (None, f')
         \<and> map_of (Pkg f') (tablePath book) = Some (PivotTablePart pt)
         \<and> ptPivotFields pt = Some pfs
         \<and> map dfName (case ptDataFields pt of None \<Rightarrow> [] | Some dfs \<Rightarrow> DataField dfs)
             = [replicate 255 (CHR ''n'')]
         \<and> pfName (PivotField pfs ! 0) = replicate 255 (CHR ''r'')
         \<and> pfName (PivotField pfs ! 2) = replicate 255 (CHR ''c''))"
proof -
  have PR1: "adjustRange book (PivotTableRange longNameOptions) = Inr (''Sheet1'', 7, 2, 13, 34)"
    by code_simp
  have l1: "255 < length (Name longNameOptions)" by code_simp
  from name_length_policy[OF PR1 book_tables book_worksheets] l1
  have a: "fst (AddPivotTable book (Some longNameOptions)) = Some ErrNameLength" by blast
  have l0: "\<not> 255 < length (Name demoOptions)" by code_simp
  from name_length_policy[OF demo_range book_tables book_worksheets] l0
  have b: "fst (AddPivotTable book (Some demoOptions)) \<noteq> Some ErrNameLength" by blast
  have PR2: "adjustRange book (PivotTableRange longFieldsOptions) = Inr (''Sheet1'', 7, 2, 13, 34)"
    by code_simp
  have L: "length (Name longFieldsOptions) \<le> 255" by code_simp
  have G: "getTableFieldsOrder book (longFieldsOptions\<lparr>pivotSheetName := ''Sheet1''\<rparr>)
             = ((demoHeader, None), longFieldsResolved)" by code_simp
  have R: "adjustRange book (pivotDataRange longFieldsResolved) = Inr (''Sheet1'', 1, 1, 5, 31)"
    by code_simp
  have D: "\<forall>fld \<in> set (Data longFieldsOptions). fldData fld \<in> set demoHeader"
    by code_simp
  have N: "map (\<lambda>fld. take 255 (fldName fld)) (Data longFieldsOptions)
             = [replicate 255 (CHR ''n'')]" by code_simp
  have i0: "(0::nat) < length demoHeader" and i2: "(2::nat) < length demoHeader"
    by (simp_all add: demoHeader_def)
  have e0: "find (\<lambda>e. fldData e = demoHeader ! 0) (Rows longFieldsOptions)
              = Some ((fieldOf ''Month'')\<lparr>fldName := replicate 300 (CHR ''r'')\<rparr>)" by code_simp
  have n0: "take 255 (fldName ((fieldOf ''Month'')\<lparr>fldName := replicate 300 (CHR ''r'')\<rparr>))
              = replicate 255 (CHR ''r'')" by code_simp
  have r2: "demoHeader ! 2 \<notin> fldData ` set (Rows longFieldsOptions)" by code_simp
  have e2: "find (\<lambda>e. fldData e = demoHeader ! 2) (Columns longFieldsOptions)
              = Some ((fieldOf ''Type'')\<lparr>fldName := replicate 300 (CHR ''c'')\<rparr>)" by code_simp
  have n2: "take 255 (fldName ((fieldOf ''Type'')\<lparr>fldName := replicate 300 (CHR ''c'')\<rparr>))
              = replicate 255 (CHR ''c'')" by code_simp
  from name_length_policy[OF PR2 book_tables book_worksheets] L G R demo_worksheet demo_sheet_path
  obtain f' pt pfs where
    S: "AddPivotTable book (Some longFieldsOptions) = (None, f')"
    and P: "map_of (Pkg f') (tablePath book) = Some (PivotTablePart pt)"
    and F: "ptPivotFields pt = Some pfs"
    and DF: "(\<forall>fld \<in> set (Data longFieldsOptions). fldData fld \<in> set demoHeader) \<longrightarrow>
               map dfName (case ptDataFields pt of None \<Rightarrow> [] | Some dfs \<Rightarrow> DataField dfs)
                 = map (\<lambda>fld. take 255 (fldName fld)) (Data longFieldsOptions)"
    and RW: "\<forall>i e. i < length demoHeader
                  \<and> find (\<lambda>e. fldData e = demoHeader ! i) (Rows longFieldsOptions) = Some e
                \<longrightarrow> pfName (PivotField pfs ! i) = take 255 (fldName e)"
    and CL: "\<forall>i e. i < length demoHeader
                  \<and> demoHeader ! i \<notin> fldData ` set (Rows longFieldsOptions)
                  \<and> find (\<lambda>e. fldData e = demoHeader ! i) (Columns longFieldsOptions) = Some e
                \<longrightarrow> pfName (PivotField pfs ! i) = take 255 (fldName e)"
    by blast
  from DF D N have d: "map dfName (case ptDataFields pt of None \<Rightarrow> [] | Some dfs \<Rightarrow> DataField dfs)
             = [replicate 255 (CHR ''n'')]" by simp
  from RW[rule_format, OF conjI[OF i0 e0]] n0
  have p0: "pfName (PivotField pfs ! 0) = replicate 255 (CHR ''r'')" by simp
  from CL[rule_format, OF conjI[OF i2 conjI[OF r2 e2]]] n2
  have p2: "pfName (PivotField pfs ! 2) = replicate 255 (CHR ''c'')" by simp
  show ?thesis
    by (rule conjI[OF a], rule conjI[OF b]) (intro exI conjI, rule S, rule P, rule F, rule d, rule p0, rule p2)
qed

lemma demo_name_short: "length (Name demoOptions) \<le> MaxFieldLength"
  by code_simp

lemma five: "{1..5::int} = set [1, 2, 3, 4, 5]" by auto

lemma six: "{1..6::int} = set [1, 2, 3, 4, 5, 6]" by auto

theorem header_row_cache_fields_counterexample:
  "adjustRange book (DataRange emptyHeaderOptions) = Inr (''Sheet1'', 1, 1, 6, 31)
   \<and> GetCellValue book ''Sheet1'' (CoordinatesToCellName book 6 1) = Inr []
   \<and> fst (AddPivotTable book (Some emptyHeaderOptions))
       = Some (PivotTableDataRangeError ErrParameterInvalid)
   \<and> fst (AddPivotTable book (Some emptyHeaderOptions)) \<noteq> Some ErrParameterInvalid"
proof -
  have 1: "adjustRange book (DataRange emptyHeaderOptions) = Inr (''Sheet1'', 1, 1, 6, 31)"
    by code_simp
  have 2: "GetCellValue book ''Sheet1'' (CoordinatesToCellName book 6 1) = Inr []"
    by code_simp
  have 3: "fst (AddPivotTable book (Some emptyHeaderOptions))
             = Some (PivotTableDataRangeError ErrParameterInvalid)"
    by code_simp
  from 1 2 3 show ?thesis by simp
qed

theorem header_row_cache_fields_witness:
  "(\<exists>f' pc cfs. AddPivotTable book (Some demoOptions) = (None, f')
       \<and> map_of (Pkg f') (cachePath book) = Some (PivotCachePart pc)
       \<and> CacheFields pc = Some cfs
       \<and> cacheFieldsCount cfs = 5
       \<and> map cfName (CacheField cfs) = [''Month'', ''Year'', ''Type'', ''Sales'', ''Region''])
   \<and> AddPivotTable book (Some emptyHeaderOptions)
       = (Some (PivotTableDataRangeError ErrParameterInvalid), book)"
proof -
  have DR: "getPivotTableDataRange book (demoOptions\<lparr>pivotSheetName := ''Sheet1''\<rparr>)
              = (None, demoResolved)" by code_simp
  have cells: "\<forall>col \<in> {1..5}. GetCellValue book ''Sheet1'' (CoordinatesToCellName book col 1)
                 = Inr (demoCell col)" unfolding five by code_simp
  have named: "\<forall>col \<in> {1..5}. demoCell col \<noteq> []" unfolding five by code_simp
  from header_row_cache_fields[OF demo_range demo_name_short DR demo_data_range demo_worksheet
      demo_sheet_path cells, unfolded if_P[OF named]]
  obtain f' pc cfs where
    1: "AddPivotTable book (Some demoOptions) = (None, f')"
    and 2: "map_of (Pkg f') (cachePath book) = Some (PivotCachePart pc)"
    and 3: "CacheFields pc = Some cfs"
    and 4: "cacheFieldsCount cfs = 5 - 1 + 1"
    and 5: "CacheField cfs =
              map (\<lambda>col. \<lparr>cfName = demoCell col, SharedItems = Some \<lparr>ContainsBlank = True, M = 1\<rparr>\<rparr>)
                [1..5]"
    by blast
  have 6: "map cfName (map (\<lambda>col. \<lparr>cfName = demoCell col,
                  SharedItems = Some \<lparr>ContainsBlank = True, M = 1\<rparr>\<rparr>) [1..5])
             = [''Month'', ''Year'', ''Type'', ''Sales'', ''Region'']" by code_simp
  have a: "\<exists>f' pc cfs. AddPivotTable book (Some demoOptions) = (None, f')
       \<and> map_of (Pkg f') (cachePath book) = Some (PivotCachePart pc)
       \<and> CacheFields pc = Some cfs
       \<and> cacheFieldsCount cfs = 5
       \<and> map cfName (CacheField cfs) = [''Month'', ''Year'', ''Type'', ''Sales'', ''Region'']"
    using 1 2 3 4 5 6 by (intro exI[of _ f'] exI[of _ pc] exI[of _ cfs]) simp
  have PR': "adjustRange book (PivotTableRange emptyHeaderOptions) = Inr (''Sheet1'', 7, 2, 13, 34)"
    by code_simp
  have L': "length (Name emptyHeaderOptions) \<le> MaxFieldLength" by code_simp
  have DR': "getPivotTableDataRange book (emptyHeaderOptions\<lparr>pivotSheetName := ''Sheet1''\<rparr>)
              = (None, emptyHeaderResolved)" by code_simp
  have R': "adjustRange book (pivotDataRange emptyHeaderResolved) = Inr (''Sheet1'', 1, 1, 6, 31)"
    by code_simp
  have cells': "\<forall>col \<in> {1..6}. GetCellValue book ''Sheet1'' (CoordinatesToCellName book col 1)
                 = Inr (demoCell col)" unfolding six by code_simp
  have unnamed: "\<not> (\<forall>col \<in> {1..6}. demoCell col \<noteq> [])" unfolding six by code_simp
  from header_row_cache_fields[OF PR' L' DR' R' demo_worksheet demo_sheet_path cells',
      unfolded if_not_P[OF unnamed]]
  have b: "AddPivotTable book (Some emptyHeaderOptions)
       = (Some (PivotTableDataRangeError ErrParameterInvalid), book)"
    by (rule conjunct1)
  from a b show ?thesis by (rule conjI)
qed

theorem getPivotFieldsIndex_skips_absent_counterexample:
  "''Quarter'' \<notin> set demoHeader
   \<and> fst (getTableFieldsOrder book absentNameOptions) = (demoHeader, None)
   \<and> fst (getPivotFieldsIndex book [fieldOf ''Quarter''] absentNameOptions) = ([], None)
   \<and> Rows absentNameOptions = [fieldOf ''Quarter'']
   \<and> fst (AddPivotTable book (Some absentNameOptions)) = None"
proof -
  have 1: "''Quarter'' \<notin> set demoHeader" by code_simp
  have 2: "fst (getTableFieldsOrder book absentNameOptions) = (demoHeader, None)" by code_simp
  have 3: "fst (getPivotFieldsIndex book [fieldOf ''Quarter''] absentNameOptions) = ([], None)"
    by code_simp
  have 4: "Rows absentNameOptions = [fieldOf ''Quarter'']" by code_simp
  have 5: "fst (AddPivotTable book (Some absentNameOptions)) = None" by code_simp
  from 1 2 3 4 5 show ?thesis by simp
qed

theorem getPivotFieldsIndex_skips_absent_witness:
  "fst (getPivotFieldsIndex book [fieldOf ''Year'', fieldOf ''Quarter'', fieldOf ''Month''] demoOptions)
     = ([1, 0], None)"
proof -
  have "(case fst (getTableFieldsOrder book demoOptions) of
        (order, None) \<Rightarrow>
          (map (\<lambda>fld. inStrSlice order (fldData fld))
             (filter (\<lambda>fld. fldData fld \<in> set order)
                [fieldOf ''Year'', fieldOf ''Quarter'', fieldOf ''Month'']), None)
      | (order, Some err) \<Rightarrow> ([], Some err)) = ([1, 0], None)"
    by code_simp
  with getPivotFieldsIndex_skips_absent
         [of book "[fieldOf ''Year'', fieldOf ''Quarter'', fieldOf ''Month'']" demoOptions]
  show ?thesis by simp
qed

theorem delete_missing_table_counterexample:
  "getSheetXMLPath unreadableBook ''Sheet1'' = Some ''xl/worksheets/sheet1.xml''
   \<and> fst (GetPivotTables unreadableBook ''Sheet1'') = []
   \<and> fst (DeletePivotTable unreadableBook ''Sheet1'' ''Nope'') = Some (ErrExternal ''xml'')
   \<and> fst (DeletePivotTable unreadableBook ''Sheet1'' ''Nope'') \<noteq> Some (NoExistTableError ''Nope'')"
proof -
  have 1: "getSheetXMLPath unreadableBook ''Sheet1'' = Some ''xl/worksheets/sheet1.xml''"
    by code_simp
  have 2: "fst (GetPivotTables unreadableBook ''Sheet1'') = []" by code_simp
  have 3: "fst (DeletePivotTable unreadableBook ''Sheet1'' ''Nope'') = Some (ErrExternal ''xml'')"
    by code_simp
  from 1 2 3 show ?thesis by simp
qed

theorem delete_missing_table_witness:
  "map Name (fst (GetPivotTables sharedBook ''Sheet1'')) = [''PivotTable1'', ''Second'']
   \<and> DeletePivotTable sharedBook ''Sheet1'' ''Nope'' = (Some (NoExistTableError ''Nope''), sharedBook)
   \<and> DeletePivotTable unreadableBook ''Sheet1'' ''Nope'' = (Some (ErrExternal ''xml''), unreadableBook)"
proof -
  have n: "map Name (fst (GetPivotTables sharedBook ''Sheet1'')) = [''PivotTable1'', ''Second'']"
    by code_simp
  have x: "getSheetXMLPath sharedBook ''Sheet1'' = Some ''xl/worksheets/sheet1.xml''"
    by code_simp
  have m: "\<forall>opt \<in> set (fst (GetPivotTables sharedBook ''Sheet1'')). Name opt \<noteq> ''Nope''"
    by code_simp
  have r: "snd (GetPivotTables sharedBook ''Sheet1'') = None
           \<and> (\<forall>s \<in> set (GetSheetList sharedBook). snd (GetPivotTables sharedBook s) \<noteq> Some Panic)"
    by code_simp
  from delete_missing_table[OF x m] r
  have a: "DeletePivotTable sharedBook ''Sheet1'' ''Nope'' = (Some (NoExistTableError ''Nope''), sharedBook)"
    by blast
  have x': "getSheetXMLPath unreadableBook ''Sheet1'' = Some ''xl/worksheets/sheet1.xml''"
    by code_simp
  have m': "\<forall>opt \<in> set (fst (GetPivotTables unreadableBook ''Sheet1'')). Name opt \<noteq> ''Nope''"
    by code_simp
  have r': "snd (GetPivotTables unreadableBook ''Sheet1'') = Some (ErrExternal ''xml'')"
    by code_simp
  from delete_missing_table[OF x' m'] r'
  have b: "DeletePivotTable unreadableBook ''Sheet1'' ''Nope'' = (Some (ErrExternal ''xml''), unreadableBook)"
    by blast
  from n a b show ?thesis by blast
qed



end
